theory Spec2Isabelle
  imports Main "HOL-Library.Word" "HOL-Library.Sublist" "HOL-Library.Product_Lexorder"
    "HOL-Library.List_Lexorder" "HOL-Library.Char_ord" "HOL-Library.Option_ord"
begin

section \<open>Base64 transport encoding (ledger.js, uint8ToBase64 and base64ToUint8)\<close>

text \<open>
  \<^verbatim>\<open>Uint8Array\<close> elements are bytes. \<^verbatim>\<open>btoa\<close> and \<^verbatim>\<open>atob\<close> are builtins of the
  platform; they are embedded after their definition in the HTML standard: \<^verbatim>\<open>btoa\<close> is
  the padded base64 encoding of RFC 4648 of a string of code units below 256, \<^verbatim>\<open>atob\<close>
  the forgiving base64 decoding (ASCII white space is removed, one or two trailing
  \<^verbatim>\<open>=\<close> are removed when the length is a multiple of 4, a remaining length of
  \<open>1 mod 4\<close> or a character outside the alphabet raises \<^verbatim>\<open>InvalidCharacterError\<close>,
  which is \<open>None\<close> here). A binary string is a \<^typ>\<open>string\<close>: every \<^typ>\<open>char\<close> is one
  code unit below 256.
\<close>

type_synonym byte = "8 word"

definition b64_alphabet :: string where
  "b64_alphabet = ''ABCDEFGHIJKLMNOPQRSTUVWXYZabcdefghijklmnopqrstuvwxyz0123456789+/''"

text \<open>The character of a 6-bit value; only applied to values below 64.\<close>

definition b64_char :: "nat \<Rightarrow> char" where
  "b64_char i = b64_alphabet ! i"

fun index_of :: "'a \<Rightarrow> 'a list \<Rightarrow> nat option" where
  "index_of c [] = None"
| "index_of c (x # xs) = (if c = x then Some 0 else map_option Suc (index_of c xs))"

definition b64_index :: "char \<Rightarrow> nat option" where
  "b64_index c = index_of c b64_alphabet"

text \<open>The 6-bit groups of a binary string, three bytes to four groups, without padding.\<close>

fun sextets :: "string \<Rightarrow> nat list" where
  "sextets [] = []"
| "sextets [a] = (let x = of_char a :: nat in [x div 4, (x mod 4) * 16])"
| "sextets [a, b] =
     (let x = of_char a :: nat; y = of_char b :: nat
      in [x div 4, (x mod 4) * 16 + y div 16, (y mod 16) * 4])"
| "sextets (a # b # c # rest) =
     (let x = of_char a :: nat; y = of_char b :: nat; z = of_char c :: nat
      in [x div 4, (x mod 4) * 16 + y div 16, (y mod 16) * 4 + z div 64, z mod 64]
         @ sextets rest)"

definition btoa :: "string \<Rightarrow> string" where
  "btoa s = map b64_char (sextets s) @ replicate ((3 - length s mod 3) mod 3) (CHR ''='')"

definition is_ascii_whitespace :: "char \<Rightarrow> bool" where
  "is_ascii_whitespace c = (of_char c \<in> {9, 10, 12, 13, 32 :: nat})"

definition strip_padding :: "string \<Rightarrow> string" where
  "strip_padding s =
     (if length s mod 4 = 0 then
        (case rev s of
           p # q # r \<Rightarrow> if p = CHR ''='' \<and> q = CHR ''='' then rev r
                        else if p = CHR ''='' then rev (q # r) else s
         | _ \<Rightarrow> s)
      else s)"

text \<open>
  The bytes of a list of 6-bit groups; the trailing 12 or 18 bits give one or two bytes and
  the surplus bits are dropped.
\<close>

fun unsextets :: "nat list \<Rightarrow> string" where
  "unsextets (s1 # s2 # s3 # s4 # rest) =
     [char_of (s1 * 4 + s2 div 16), char_of ((s2 mod 16) * 16 + s3 div 4),
      char_of ((s3 mod 4) * 64 + s4)] @ unsextets rest"
| "unsextets [s1, s2, s3] =
     [char_of (s1 * 4 + s2 div 16), char_of ((s2 mod 16) * 16 + s3 div 4)]"
| "unsextets [s1, s2] = [char_of (s1 * 4 + s2 div 16)]"
| "unsextets _ = []"

definition atob :: "string \<Rightarrow> string option" where
  "atob s =
     (let t = strip_padding (filter (\<lambda>c. \<not> is_ascii_whitespace c) s)
      in if length t mod 4 = 1 then None
         else map_option unsextets (those (map b64_index t)))"

text \<open>
  \<^verbatim>\<open>
  function uint8ToBase64(bytes) {
    let binary = "";
    for (let i = 0; i < bytes.length; i++) binary += String.fromCharCode(bytes[i]);
    return btoa(binary);
  }
  function base64ToUint8(base64) {
    const binary = atob(base64);
    const bytes = new Uint8Array(binary.length);
    for (let i = 0; i < binary.length; i++) bytes[i] = binary.charCodeAt(i);
    return bytes;
  }
  \<close>
  \<open>base64ToUint8\<close> is \<open>None\<close> where \<^verbatim>\<open>atob\<close> throws.
\<close>

definition uint8ToBase64 :: "byte list \<Rightarrow> string" where
  "uint8ToBase64 bytes = btoa (map (\<lambda>b. char_of (unat b)) bytes)"

definition base64ToUint8 :: "string \<Rightarrow> byte list option" where
  "base64ToUint8 base64 =
     map_option (map (\<lambda>c. word_of_nat (of_char c))) (atob base64)"

section \<open>Local content store (persistence.js)\<close>

text \<open>Errors thrown by the code, as values.\<close>

datatype js_error =
    InvalidCharacterError
  | Error string
  | ConstraintError
  | SqliteError

text \<open>
  A record of the object store \<^verbatim>\<open>site_files\<close>, as \<^verbatim>\<open>storeFile\<close> builds it. The content
  is the blob's bytes; \<^verbatim>\<open>cachedAt\<close> is the clock reading (milliseconds) from which the
  source prints an ISO string.
\<close>

record stored_file =
  f_key :: string
  f_siteId :: string
  f_path :: string
  f_contentType :: string
  f_content :: "byte list"
  f_size :: nat
  f_cachedAt :: nat

text \<open>
  The object store is the list of its records in key order, the order in which
  \<^verbatim>\<open>getAll\<close> returns them. \<^verbatim>\<open>put\<close> replaces the record with the same key or inserts
  the new record at its place.
\<close>

type_synonym object_store = "stored_file list"

fun string_less :: "string \<Rightarrow> string \<Rightarrow> bool" where
  "string_less [] [] = False"
| "string_less [] (y # ys) = True"
| "string_less (x # xs) [] = False"
| "string_less (x # xs) (y # ys) =
     ((of_char x :: nat) < of_char y \<or> (x = y \<and> string_less xs ys))"

fun idb_put :: "stored_file \<Rightarrow> object_store \<Rightarrow> object_store" where
  "idb_put f [] = [f]"
| "idb_put f (g # gs) =
     (if f_key f = f_key g then f # gs
      else if string_less (f_key f) (f_key g) then f # g # gs
      else g # idb_put f gs)"

definition idb_get :: "string \<Rightarrow> object_store \<Rightarrow> stored_file option" where
  "idb_get k db = find (\<lambda>f. f_key f = k) db"

definition storeFile ::
  "string \<Rightarrow> string \<Rightarrow> byte list \<Rightarrow> string \<Rightarrow> nat \<Rightarrow> object_store \<Rightarrow> object_store" where
  "storeFile siteId path content contentType clock db =
     idb_put \<lparr>f_key = siteId @ ''/'' @ path, f_siteId = siteId, f_path = path,
              f_contentType = contentType, f_content = content, f_size = length content,
              f_cachedAt = clock\<rparr> db"

definition getFile :: "string \<Rightarrow> string \<Rightarrow> object_store \<Rightarrow> stored_file option" where
  "getFile siteId path db = idb_get (siteId @ ''/'' @ path) db"

definition getFilesForSite :: "string \<Rightarrow> object_store \<Rightarrow> stored_file list" where
  "getFilesForSite siteId db = filter (\<lambda>f. f_siteId f = siteId) db"

text \<open>The three bytes of \<open>Hi!\<close>, stored as \<open>index.html\<close> of site \<open>S\<close>.\<close>

definition hi_file :: stored_file where
  "hi_file =
     \<lparr>f_key = ''S/index.html'', f_siteId = ''S'', f_path = ''index.html'',
      f_contentType = ''text/html'', f_content = [72, 105, 33], f_size = 3, f_cachedAt = 0\<rparr>"

section \<open>The replicated store (ledger.js, CRSQLiteDB)\<close>

text \<open>
  A value of a column, the \<^verbatim>\<open>val\<close> of a change record: \<^verbatim>\<open>NULL\<close>, an integer or a
  text.
\<close>

datatype sql_value = SqlNull | SqlInt int | SqlText string

text \<open>
  Modelled from the spec: the order of values, by which the embedded database (not part of
  the repository) breaks a tie of two writes deterministically. \<^verbatim>\<open>NULL\<close> is below every
  integer and every integer below every text; integers are ordered by size and texts by
  their bytes.
\<close>

fun val_key :: "sql_value \<Rightarrow> nat \<times> int \<times> string" where
  "val_key SqlNull = (0, 0, [])"
| "val_key (SqlInt i) = (1, i, [])"
| "val_key (SqlText s) = (2, 0, s)"

instantiation sql_value :: linorder
begin

definition less_eq_sql_value :: "sql_value \<Rightarrow> sql_value \<Rightarrow> bool" where
  "less_eq_sql_value a b \<longleftrightarrow> val_key a \<le> val_key b"

definition less_sql_value :: "sql_value \<Rightarrow> sql_value \<Rightarrow> bool" where
  "less_sql_value a b \<longleftrightarrow> val_key a < val_key b"

instance
proof
  fix x y z :: sql_value
  show "(x < y) = (x \<le> y \<and> \<not> y \<le> x)"
    unfolding less_eq_sql_value_def less_sql_value_def by (rule less_le_not_le)
  show "x \<le> x"
    unfolding less_eq_sql_value_def by (rule order_refl)
  show "x \<le> y \<Longrightarrow> y \<le> z \<Longrightarrow> x \<le> z"
    unfolding less_eq_sql_value_def by (rule order_trans)
  show "x \<le> y \<or> y \<le> x"
    unfolding less_eq_sql_value_def by (rule linear)
  show "x \<le> y \<Longrightarrow> y \<le> x \<Longrightarrow> x = y"
  proof -
    assume "x \<le> y" and "y \<le> x"
    then have "val_key x = val_key y"
      unfolding less_eq_sql_value_def by (rule antisym)
    then show "x = y" by (cases x; cases y) simp_all
  qed
qed

end

subsection \<open>Packed primary keys\<close>

text \<open>
  Modelled from the spec: the primary key of a change record, a byte string that the
  embedded database (not part of the repository) writes and reads. The database packs the
  values of the key columns of a row: one byte for the number of columns, then for every
  column one byte whose low three bits are the type (1 integer, 2 float, 3 text, 4 blob,
  5 \<^verbatim>\<open>NULL\<close>) and whose high five bits are the number of bytes of the integer that
  follows (the value of an integer column, the length of a text or blob), that integer
  with the most significant byte first in as few bytes as it needs, and the bytes of a
  text or blob. A float has eight bytes after its type byte and \<^verbatim>\<open>NULL\<close> has none.
\<close>

definition num_bytes_needed :: "nat \<Rightarrow> nat" where
  "num_bytes_needed n =
     (if n = 0 then 0 else if n < 256 then 1 else if n < 65536 then 2
      else if n < 16777216 then 3 else if n < 4294967296 then 4
      else if n < 1099511627776 then 5 else if n < 281474976710656 then 6
      else if n < 72057594037927936 then 7 else 8)"

primrec be_bytes :: "nat \<Rightarrow> nat \<Rightarrow> byte list" where
  "be_bytes 0 n = []"
| "be_bytes (Suc k) n = be_bytes k (n div 256) @ [word_of_nat n]"

definition be_nat :: "byte list \<Rightarrow> nat" where
  "be_nat bs = foldl (\<lambda>acc b. acc * 256 + unat b) 0 bs"

definition pack_value :: "sql_value \<Rightarrow> byte list" where
  "pack_value v =
     (case v of
        SqlNull \<Rightarrow> [5]
      | SqlInt i \<Rightarrow>
          (let u = nat (i mod 18446744073709551616); k = num_bytes_needed u
           in word_of_nat (k * 8 + 1) # be_bytes k u)
      | SqlText s \<Rightarrow>
          (let k = num_bytes_needed (length s)
           in word_of_nat (k * 8 + 3) # be_bytes k (length s)
              @ map (\<lambda>c. word_of_nat (of_char c)) s))"

definition pack_columns :: "sql_value list \<Rightarrow> byte list" where
  "pack_columns vs = word_of_nat (length vs) # concat (map pack_value vs)"

text \<open>
  Modelled from the spec: the keys that the database can pack. It stores no text of
  1000000000 bytes or more, and the number of columns has to fit the first byte.
\<close>

definition key_packable :: "sql_value list \<Rightarrow> bool" where
  "key_packable vs =
     (length vs < 256
      \<and> list_all (\<lambda>v. case v of SqlText s \<Rightarrow> int (length s) < 1000000000 | _ \<Rightarrow> True) vs)"

text \<open>
  Modelled from the spec: the check of a packed key when the database reads it. \<open>n\<close>
  columns are read from the bytes; the reading fails when the bytes end early or a type
  is unknown.
\<close>

fun unpack_ok :: "nat \<Rightarrow> byte list \<Rightarrow> bool" where
  "unpack_ok 0 bs = True"
| "unpack_ok (Suc n) [] = False"
| "unpack_ok (Suc n) (t # bs) =
     (let ty = unat t mod 8; k = unat t div 8
      in if ty = 5 then unpack_ok n bs
         else if ty = 2 then 8 \<le> length bs \<and> unpack_ok n (drop 8 bs)
         else if ty = 1 then k \<le> 8 \<and> k \<le> length bs \<and> unpack_ok n (drop k bs)
         else if ty = 3 \<or> ty = 4 then
           k \<le> 8 \<and> k \<le> length bs \<and> be_nat (take k bs) \<le> length bs - k
           \<and> unpack_ok n (drop (k + be_nat (take k bs)) bs)
         else False)"

definition packed_ok :: "byte list \<Rightarrow> bool" where
  "packed_ok pk = (case pk of [] \<Rightarrow> False | c # bs \<Rightarrow> unpack_ok (unat c) bs)"

text \<open>
  A row of \<^verbatim>\<open>crsql_changes\<close>, as \<^verbatim>\<open>db.execO\<close> returns it and as \<^verbatim>\<open>applyChanges\<close>
  inserts it: the change record of the specification.
\<close>

record change =
  c_table :: string
  c_pk :: "byte list"
  c_cid :: string
  c_val :: sql_value
  c_col_version :: nat
  c_db_version :: nat
  c_site_id :: "byte list"
  c_cl :: nat
  c_seq :: nat

text \<open>A change record on the wire: \<^verbatim>\<open>pk\<close> and \<^verbatim>\<open>site_id\<close> are base64 strings.\<close>

record wire_change =
  w_table :: string
  w_pk :: string
  w_cid :: string
  w_val :: sql_value
  w_col_version :: nat
  w_db_version :: nat
  w_site_id :: string
  w_cl :: nat
  w_seq :: nat

text \<open>
  Modelled from the spec: the embedded database with CRDT tracking
  (\<^verbatim>\<open>@vlcn.io/crsqlite-wasm\<close>), which is not part of the repository. The specification
  says that a tracked table is a replicated register map, that concurrent updates of a
  column are resolved deterministically, last writer wins, by the column version and the
  causal clock of the change, that the version advances on every tracked write, and that
  the changes since a version are those with a greater \<^verbatim>\<open>db_version\<close>. The database is
  its site id, its version and one row of \<^verbatim>\<open>crsql_changes\<close> for every cell (table,
  primary key, column) that was ever written, in the order of their \<^verbatim>\<open>db_version\<close>.
\<close>

record crsqlite =
  db_site_id :: "byte list"
  db_version :: nat
  db_changes :: "change list"

type_synonym cell = "string \<times> byte list \<times> string"

text \<open>
  Modelled from the spec: the register of a change, the part of a row of the embedded
  database that all replicas agree on for a cell, namely the causal
  length, the column version, the value and the site that wrote it. Registers are compared
  in this order, lexicographically; the greater register is the later write. The
  \<^verbatim>\<open>db_version\<close> and \<^verbatim>\<open>seq\<close> of a row are local to a replica.
\<close>

type_synonym register = "nat \<times> nat \<times> sql_value \<times> byte list"

definition cell_of :: "change \<Rightarrow> cell" where
  "cell_of c = (c_table c, c_pk c, c_cid c)"

definition register_of :: "change \<Rightarrow> register" where
  "register_of c = (c_cl c, c_col_version c, c_val c, c_site_id c)"

definition lookup_cell :: "cell \<Rightarrow> change list \<Rightarrow> change option" where
  "lookup_cell k rows = find (\<lambda>e. cell_of e = k) rows"

text \<open>
  Modelled from the spec: a tracked write of a change row. The row replaces the row of
  its cell and gets the next \<^verbatim>\<open>db_version\<close>.
\<close>

definition store_change :: "change \<Rightarrow> crsqlite \<Rightarrow> crsqlite" where
  "store_change c db =
     db\<lparr>db_version := db_version db + 1,
        db_changes := filter (\<lambda>e. cell_of e \<noteq> cell_of c) (db_changes db)
                      @ [c\<lparr>c_db_version := db_version db + 1, c_seq := 0\<rparr>]\<rparr>"

text \<open>
  Modelled from the spec: the merge of one change of another replica. The change is
  stored when its cell has no row yet or when its register is greater than the register
  of the row; otherwise nothing changes.
\<close>

definition crsql_merge :: "change \<Rightarrow> crsqlite \<Rightarrow> crsqlite" where
  "crsql_merge c db =
     (case lookup_cell (cell_of c) (db_changes db) of
        None \<Rightarrow> store_change c db
      | Some e \<Rightarrow> if register_of e < register_of c then store_change c db else db)"

text \<open>
  Modelled from the spec: the statement \<^verbatim>\<open>INSERT INTO crsql_changes\<close>. The database
  reports a failure of a statement as an error, and a failed statement changes nothing. Of
  the checks of the database the model has the one of the primary key: a change whose
  \<^verbatim>\<open>pk\<close> is not a packed key is rejected. An accepted change is merged.
\<close>

definition crsql_insert_change :: "change \<Rightarrow> crsqlite \<Rightarrow> js_error + crsqlite" where
  "crsql_insert_change c db =
     (if packed_ok (c_pk c) then Inr (crsql_merge c db) else Inl SqliteError)"

text \<open>
  Modelled from the spec: the local writes on a tracked table, on the row with the given
  values of its key columns. A write of a column stores the value with the column version
  one above the stored one (1 for a new cell) and the site id of the replica. A delete of
  a row writes its tombstone, the cell of the column \<^verbatim>\<open>-1\<close>, with the causal length one
  above the stored one (2 for the first delete). The database packs the key; a statement
  whose key it cannot pack fails and changes nothing.
\<close>

datatype local_write =
    WriteColumn string "sql_value list" string sql_value
  | DeleteRow string "sql_value list"

fun apply_local_write :: "local_write \<Rightarrow> crsqlite \<Rightarrow> crsqlite" where
  "apply_local_write (WriteColumn tbl key cid v) db =
     (if \<not> key_packable key then db
      else
        (let pk = pack_columns key;
             old = lookup_cell (tbl, pk, cid) (db_changes db)
         in store_change
              \<lparr>c_table = tbl, c_pk = pk, c_cid = cid, c_val = v,
               c_col_version = (case old of None \<Rightarrow> 1 | Some e \<Rightarrow> c_col_version e + 1),
               c_db_version = 0, c_site_id = db_site_id db,
               c_cl = (case old of None \<Rightarrow> 1 | Some e \<Rightarrow> c_cl e), c_seq = 0\<rparr> db))"
| "apply_local_write (DeleteRow tbl key) db =
     (if \<not> key_packable key then db
      else
        (let pk = pack_columns key;
             old = lookup_cell (tbl, pk, ''-1'') (db_changes db)
         in store_change
              \<lparr>c_table = tbl, c_pk = pk, c_cid = ''-1'', c_val = SqlNull,
               c_col_version = (case old of None \<Rightarrow> 1 | Some e \<Rightarrow> c_col_version e + 1),
               c_db_version = 0, c_site_id = db_site_id db,
               c_cl = (case old of None \<Rightarrow> 2 | Some e \<Rightarrow> c_cl e + 1), c_seq = 0\<rparr> db))"

text \<open>Modelled from the spec: the database that \<^verbatim>\<open>open\<close> creates, with no tracked write.\<close>

definition open_crsqlite :: "byte list \<Rightarrow> crsqlite" where
  "open_crsqlite site = \<lparr>db_site_id = site, db_version = 0, db_changes = []\<rparr>"

text \<open>
  Modelled from the spec: what the replicas have to agree on, the register of every cell.
  The value of a column of a row of \<^verbatim>\<open>sites\<close> is read from it; a row whose tombstone
  has an even causal length is deleted and has no columns.
\<close>

definition registers :: "crsqlite \<Rightarrow> cell \<Rightarrow> register option" where
  "registers db k = map_option register_of (lookup_cell k (db_changes db))"

definition sites_column :: "crsqlite \<Rightarrow> byte list \<Rightarrow> string \<Rightarrow> sql_value option" where
  "sites_column db pk cid =
     (case registers db (''sites'', pk, ''-1'') of
        Some (cl, _) \<Rightarrow>
          if even cl then None
          else map_option (\<lambda>(_, _, v, _). v) (registers db (''sites'', pk, cid))
      | None \<Rightarrow> map_option (\<lambda>(_, _, v, _). v) (registers db (''sites'', pk, cid)))"

subsection \<open>The class CRSQLiteDB\<close>

text \<open>
  The fields of \<^verbatim>\<open>CRSQLiteDB\<close>: the database (\<^verbatim>\<open>null\<close> before \<^verbatim>\<open>open\<close> and after
  \<^verbatim>\<open>close\<close>), the site id as a hex string, and the cached version.
\<close>

record CRSQLiteDB =
  cr_db :: "crsqlite option"
  cr_siteId :: string
  cr_dbVersion :: nat

definition hex_digit :: "nat \<Rightarrow> char" where
  "hex_digit d = ''0123456789abcdef'' ! d"

definition hex_of_bytes :: "byte list \<Rightarrow> string" where
  "hex_of_bytes bs = concat (map (\<lambda>b. [hex_digit (unat b div 16), hex_digit (unat b mod 16)]) bs)"

definition opened :: "byte list \<Rightarrow> CRSQLiteDB" where
  "opened site = \<lparr>cr_db = Some (open_crsqlite site), cr_siteId = hex_of_bytes site,
                  cr_dbVersion = 0\<rparr>"

text \<open>
  \<^verbatim>\<open>getChanges\<close>: refresh the cached version, select the rows with a greater
  \<^verbatim>\<open>db_version\<close>, and encode \<^verbatim>\<open>pk\<close> and \<^verbatim>\<open>site_id\<close>. \<^verbatim>\<open>getDb\<close> throws when the
  database is not open.
\<close>

definition to_wire :: "change \<Rightarrow> wire_change" where
  "to_wire row =
     \<lparr>w_table = c_table row, w_pk = uint8ToBase64 (c_pk row), w_cid = c_cid row,
      w_val = c_val row, w_col_version = c_col_version row, w_db_version = c_db_version row,
      w_site_id = uint8ToBase64 (c_site_id row), w_cl = c_cl row, w_seq = c_seq row\<rparr>"

definition getChanges :: "nat \<Rightarrow> CRSQLiteDB \<Rightarrow> js_error + (wire_change list \<times> CRSQLiteDB)" where
  "getChanges sinceVersion d =
     (case cr_db d of
        None \<Rightarrow> Inl (Error ''Database not opened'')
      | Some db \<Rightarrow>
          Inr (map to_wire (filter (\<lambda>row. sinceVersion < c_db_version row) (db_changes db)),
               d\<lparr>cr_dbVersion := db_version db\<rparr>))"

text \<open>
  \<^verbatim>\<open>applyChanges\<close>. The parameters of one \<^verbatim>\<open>INSERT\<close> are the fields of the change with
  \<^verbatim>\<open>pk\<close> and \<^verbatim>\<open>site_id\<close> decoded; the decoding throws on a string that is not base64.
  \<open>exec\<close> is what the awaited \<^verbatim>\<open>db.exec\<close> of the statement does in the database at
  hand: it changes the database or throws. Every \<^verbatim>\<open>INSERT\<close> is a statement of its own;
  the source opens no transaction. The loop returns the database as the statements so far
  have left it, and the error if one was thrown. The cached version is refreshed after the
  loop only.
\<close>

definition from_wire :: "wire_change \<Rightarrow> change option" where
  "from_wire change =
     (case base64ToUint8 (w_pk change) of
        None \<Rightarrow> None
      | Some pk \<Rightarrow>
          (case base64ToUint8 (w_site_id change) of
             None \<Rightarrow> None
           | Some siteId \<Rightarrow>
               Some \<lparr>c_table = w_table change, c_pk = pk, c_cid = w_cid change,
                     c_val = w_val change, c_col_version = w_col_version change,
                     c_db_version = w_db_version change, c_site_id = siteId,
                     c_cl = w_cl change, c_seq = w_seq change\<rparr>))"

fun applyChanges_loop ::
  "(change \<Rightarrow> crsqlite \<Rightarrow> js_error + crsqlite) \<Rightarrow> wire_change list \<Rightarrow> crsqlite
     \<Rightarrow> crsqlite \<times> js_error option" where
  "applyChanges_loop exec [] db = (db, None)"
| "applyChanges_loop exec (change # changes) db =
     (case from_wire change of
        None \<Rightarrow> (db, Some InvalidCharacterError)
      | Some row \<Rightarrow>
          (case exec row db of
             Inl e \<Rightarrow> (db, Some e)
           | Inr db' \<Rightarrow> applyChanges_loop exec changes db'))"

definition applyChanges ::
  "(change \<Rightarrow> crsqlite \<Rightarrow> js_error + crsqlite) \<Rightarrow> wire_change list \<Rightarrow> CRSQLiteDB
     \<Rightarrow> CRSQLiteDB \<times> js_error option" where
  "applyChanges exec changes d =
     (case cr_db d of
        None \<Rightarrow> (d, Some (Error ''Database not opened''))
      | Some db \<Rightarrow>
          (case applyChanges_loop exec changes db of
             (db', None) \<Rightarrow> (d\<lparr>cr_db := Some db', cr_dbVersion := db_version db'\<rparr>, None)
           | (db', Some e) \<Rightarrow> (d\<lparr>cr_db := Some db'\<rparr>, Some e)))"

text \<open>
  The statements of a list of rows one after the other, each on the database the one
  before has left: the database after the last, or the first error.
\<close>

fun exec_all ::
  "(change \<Rightarrow> crsqlite \<Rightarrow> js_error + crsqlite) \<Rightarrow> change list \<Rightarrow> crsqlite
     \<Rightarrow> js_error + crsqlite" where
  "exec_all exec [] db = Inr db"
| "exec_all exec (row # rows) db =
     (case exec row db of Inl e \<Rightarrow> Inl e | Inr db' \<Rightarrow> exec_all exec rows db')"

subsection \<open>Two replicas\<close>

text \<open>
  A replica that has made local writes, and the exchange of all changes between two
  replicas: in one step one replica answers a \<^verbatim>\<open>sync-request\<close> for version 0 with
  \<^verbatim>\<open>getChanges(0)\<close> and the other applies the answer with \<^verbatim>\<open>applyChanges\<close>, on the
  database of the model. A step in which a call throws gives \<open>None\<close>.
\<close>

definition local_writes :: "local_write list \<Rightarrow> CRSQLiteDB \<Rightarrow> CRSQLiteDB" where
  "local_writes ws d =
     (case cr_db d of None \<Rightarrow> d | Some db \<Rightarrow> d\<lparr>cr_db := Some (fold apply_local_write ws db)\<rparr>)"

definition send_all :: "CRSQLiteDB \<Rightarrow> CRSQLiteDB \<Rightarrow> (CRSQLiteDB \<times> CRSQLiteDB) option" where
  "send_all sender receiver =
     (case getChanges 0 sender of
        Inl e \<Rightarrow> None
      | Inr (changes, sender') \<Rightarrow>
          (case applyChanges crsql_insert_change changes receiver of
             (receiver', None) \<Rightarrow> Some (sender', receiver')
           | (receiver', Some e) \<Rightarrow> None))"

datatype direction = AtoB | BtoA

fun exchange :: "direction list \<Rightarrow> CRSQLiteDB \<times> CRSQLiteDB \<Rightarrow> (CRSQLiteDB \<times> CRSQLiteDB) option" where
  "exchange [] ab = Some ab"
| "exchange (AtoB # ds) (a, b) =
     (case send_all a b of None \<Rightarrow> None | Some (a', b') \<Rightarrow> exchange ds (a', b'))"
| "exchange (BtoA # ds) (a, b) =
     (case send_all b a of None \<Rightarrow> None | Some (b', a') \<Rightarrow> exchange ds (a', b'))"

text \<open>The registers of an opened database; a closed one has none.\<close>

definition replica_registers :: "CRSQLiteDB \<Rightarrow> cell \<Rightarrow> register option" where
  "replica_registers d k = (case cr_db d of None \<Rightarrow> None | Some db \<Rightarrow> registers db k)"

definition replica_sites_column :: "CRSQLiteDB \<Rightarrow> byte list \<Rightarrow> string \<Rightarrow> sql_value option" where
  "replica_sites_column d pk cid =
     (case cr_db d of None \<Rightarrow> None | Some db \<Rightarrow> sites_column db pk cid)"

text \<open>
  The invariant of a database: every cell has one row, every row has a
  \<^verbatim>\<open>db_version\<close> above 0 (so that the changes since version 0 are all rows), and the
  key of every row is a packed key.
\<close>

definition well_formed :: "crsqlite \<Rightarrow> bool" where
  "well_formed db =
     (distinct (map cell_of (db_changes db))
      \<and> list_all (\<lambda>e. 0 < c_db_version e) (db_changes db)
      \<and> list_all (\<lambda>e. packed_ok (c_pk e)) (db_changes db))"

text \<open>The greatest register among the changes of a batch for the cell \<open>k\<close>, starting from \<open>r\<close>.\<close>

definition merge_at :: "cell \<Rightarrow> change list \<Rightarrow> register option \<Rightarrow> register option" where
  "merge_at k cs r =
     fold (\<lambda>c acc. if cell_of c = k then max acc (Some (register_of c)) else acc) cs r"

subsection \<open>Example data\<close>

text \<open>
  Changes of the site with the sixteen bytes \<open>02\<close> as its id, on the wire, for the row
  of \<^verbatim>\<open>sites\<close> whose id is the text \<open>1\<close>; its packed key is \<open>01 0b 01 31\<close>, in base64
  \<^verbatim>\<open>AQsBMQ==\<close>. The first sets the column \<open>name\<close>. The \<^verbatim>\<open>pk\<close> of the second is not
  base64. The \<^verbatim>\<open>pk\<close> of the third is base64 of the byte \<open>01\<close>, which announces one
  column and has none.
\<close>

definition name_change :: wire_change where
  "name_change =
     \<lparr>w_table = ''sites'', w_pk = ''AQsBMQ=='', w_cid = ''name'', w_val = SqlText ''Alpha'',
      w_col_version = 1, w_db_version = 1, w_site_id = ''AgICAgICAgICAgICAgICAg=='',
      w_cl = 1, w_seq = 0\<rparr>"

definition broken_change :: wire_change where
  "broken_change =
     \<lparr>w_table = ''sites'', w_pk = ''!'', w_cid = ''url'', w_val = SqlText ''x'',
      w_col_version = 1, w_db_version = 2, w_site_id = ''AgICAgICAgICAgICAgICAg=='',
      w_cl = 1, w_seq = 0\<rparr>"

definition unpacked_change :: wire_change where
  "unpacked_change =
     \<lparr>w_table = ''sites'', w_pk = ''AQ=='', w_cid = ''url'', w_val = SqlText ''x'',
      w_col_version = 1, w_db_version = 2, w_site_id = ''AgICAgICAgICAgICAgICAg=='',
      w_cl = 1, w_seq = 0\<rparr>"

definition name_row :: change where
  "name_row =
     \<lparr>c_table = ''sites'', c_pk = [1, 11, 1, 49], c_cid = ''name'', c_val = SqlText ''Alpha'',
      c_col_version = 1, c_db_version = 1,
      c_site_id = [2, 2, 2, 2, 2, 2, 2, 2, 2, 2, 2, 2, 2, 2, 2, 2], c_cl = 1, c_seq = 0\<rparr>"

definition unpacked_row :: change where
  "unpacked_row =
     \<lparr>c_table = ''sites'', c_pk = [1], c_cid = ''url'', c_val = SqlText ''x'',
      c_col_version = 1, c_db_version = 2,
      c_site_id = [2, 2, 2, 2, 2, 2, 2, 2, 2, 2, 2, 2, 2, 2, 2, 2], c_cl = 1, c_seq = 0\<rparr>"

text \<open>The local replica of the examples, with the sixteen bytes \<open>01\<close> as its site id.\<close>

definition local_replica :: CRSQLiteDB where
  "local_replica = opened [1, 1, 1, 1, 1, 1, 1, 1, 1, 1, 1, 1, 1, 1, 1, 1]"

text \<open>A replica whose database is not open.\<close>

definition closed_replica :: CRSQLiteDB where
  "closed_replica = \<lparr>cr_db = None, cr_siteId = [], cr_dbVersion = 0\<rparr>"

definition after_name_change :: crsqlite where
  "after_name_change =
     \<lparr>db_site_id = [1, 1, 1, 1, 1, 1, 1, 1, 1, 1, 1, 1, 1, 1, 1, 1], db_version = 1,
      db_changes = [name_row]\<rparr>"

text \<open>
  Replica \<open>A\<close> names the row with the id \<open>1\<close> \<open>Alpha\<close> and then \<open>Gamma\<close>; replica
  \<open>B\<close> names it \<open>Beta\<close> and writes a row with the id \<open>2\<close>.
\<close>

definition replica_A :: CRSQLiteDB where
  "replica_A =
     local_writes [WriteColumn ''sites'' [SqlText ''1''] ''name'' (SqlText ''Alpha''),
                   WriteColumn ''sites'' [SqlText ''1''] ''name'' (SqlText ''Gamma'')]
       (opened [10, 10, 10, 10, 10, 10, 10, 10, 10, 10, 10, 10, 10, 10, 10, 10])"

definition replica_B :: CRSQLiteDB where
  "replica_B =
     local_writes [WriteColumn ''sites'' [SqlText ''1''] ''name'' (SqlText ''Beta''),
                   WriteColumn ''sites'' [SqlText ''2''] ''name'' (SqlText ''Delta'')]
       (opened [11, 11, 11, 11, 11, 11, 11, 11, 11, 11, 11, 11, 11, 11, 11, 11])"

section \<open>File transfer (transfer.js)\<close>

definition CHUNK_SIZE :: nat where
  "CHUNK_SIZE = 64 * 1024"

record file_meta =
  m_path :: string
  m_size :: nat
  m_contentType :: string

text \<open>The messages of the \<^verbatim>\<open>file-transfer\<close> channel, by their \<^verbatim>\<open>type\<close> field.\<close>

datatype transfer_msg =
    FileListRequest string
  | FileList string "file_meta list"
  | FileRequest string string
  | FileStart string string string nat
  | FileChunk string string string
  | FileEnd string string
  | OtherMsg

text \<open>An entry of \<^verbatim>\<open>incomingTransfers\<close>, as \<^verbatim>\<open>file-start\<close> creates it.\<close>

record incoming_transfer =
  t_siteId :: string
  t_path :: string
  t_contentType :: string
  t_totalSize :: nat
  t_receivedSize :: nat
  t_chunks :: "byte list list"

text \<open>
  A promise is a number; \<^verbatim>\<open>promises\<close> holds the settled ones with their outcome, and a
  promise that is absent is still pending. The pair \<^verbatim>\<open>{ resolve, reject }\<close> stored in
  \<^verbatim>\<open>pendingRequests\<close> is the number of the promise it settles.
\<close>

datatype outcome =
    Resolved_files "file_meta list"
  | Resolved_true
  | Rejected js_error

text \<open>
  A callback given to \<^verbatim>\<open>setTimeout\<close> by \<^verbatim>\<open>requestFileList\<close> or \<^verbatim>\<open>importSiteFromPeer\<close>:
  the time at which it is due, and the key, promise and error message it closes over.
\<close>

record timer =
  tm_due :: nat
  tm_key :: string
  tm_promise :: nat
  tm_message :: string

text \<open>
  A call of \<^verbatim>\<open>sendFile\<close> is an \<^verbatim>\<open>async\<close> function: it runs until it awaits, and its
  continuation runs later, when the awaited promise has settled and the event loop gets to
  it; other handlers run in between. A suspended call is its arguments and the point at
  which it waits, with the local variables that its continuation uses: at
  \<^verbatim>\<open>await getFilesForSite(siteId)\<close>; at \<^verbatim>\<open>await blob.arrayBuffer()\<close>, with the blob; or
  at the \<^verbatim>\<open>await\<close> of the timer of 10 ms at the end of a round of the chunk loop, with
  \<^verbatim>\<open>bytes\<close> and the \<^verbatim>\<open>offset\<close> of that round.
\<close>

datatype send_phase =
    AwaitFiles
  | AwaitBytes "byte list"
  | AwaitTimer "byte list" nat

record send_job =
  j_peerId :: string
  j_siteId :: string
  j_path :: string
  j_phase :: send_phase

text \<open>
  The module state of transfer.js (\<^verbatim>\<open>pendingRequests\<close>, \<^verbatim>\<open>incomingTransfers\<close>), with
  the environment it acts on: the promises it settles, the timers it has set, the clock in
  milliseconds, the messages handed to \<^verbatim>\<open>sendTransferMessage\<close> with their addressee, the
  local content store, the calls of \<^verbatim>\<open>notifyProgress\<close>, and the suspended calls of
  \<^verbatim>\<open>sendFile\<close>, numbered in the order in which they were made. The two maps of the
  module are never iterated, so they are partial functions.
\<close>

record transfer_state =
  pendingRequests :: "string \<rightharpoonup> nat"
  incomingTransfers :: "string \<rightharpoonup> incoming_transfer"
  promises :: "nat \<rightharpoonup> outcome"
  nextPromise :: nat
  timers :: "timer list"
  clock :: nat
  outbox :: "(string \<times> transfer_msg) list"
  files :: object_store
  progress :: "(string \<times> string \<times> nat \<times> nat) list"
  sending :: "nat \<rightharpoonup> send_job"
  nextSend :: nat

definition init_transfer_state :: transfer_state where
  "init_transfer_state =
     \<lparr>pendingRequests = Map.empty, incomingTransfers = Map.empty, promises = Map.empty,
      nextPromise = 0, timers = [], clock = 0, outbox = [], files = [], progress = [],
      sending = Map.empty, nextSend = 0\<rparr>"

text \<open>Settling a promise that is settled already has no effect.\<close>

definition settle :: "nat \<Rightarrow> outcome \<Rightarrow> transfer_state \<Rightarrow> transfer_state" where
  "settle p v st =
     (if promises st p = None then st\<lparr>promises := (promises st)(p \<mapsto> v)\<rparr> else st)"

definition sendTransferMessage :: "string \<Rightarrow> transfer_msg \<Rightarrow> transfer_state \<Rightarrow> transfer_state" where
  "sendTransferMessage peerId data st = st\<lparr>outbox := outbox st @ [(peerId, data)]\<rparr>"

definition notifyProgress ::
  "string \<Rightarrow> string \<Rightarrow> nat \<Rightarrow> nat \<Rightarrow> transfer_state \<Rightarrow> transfer_state" where
  "notifyProgress siteId path received tot st =
     st\<lparr>progress := progress st @ [(siteId, path, received, tot)]\<rparr>"

text \<open>The three key formats, template strings in the source.\<close>

definition transfer_key :: "string \<Rightarrow> string \<Rightarrow> string \<Rightarrow> string" where
  "transfer_key fromPeerId siteId path = fromPeerId @ '':'' @ siteId @ '':'' @ path"

definition list_key :: "string \<Rightarrow> string" where
  "list_key siteId = ''list:'' @ siteId"

definition file_key :: "string \<Rightarrow> string \<Rightarrow> string" where
  "file_key siteId path = ''file:'' @ siteId @ '':'' @ path"

text \<open>
  \<^verbatim>\<open>handleFileChunk\<close>. Its decoding loop is the code of \<^verbatim>\<open>base64ToUint8\<close>. Where
  \<^verbatim>\<open>atob\<close> throws, nothing has been changed yet and the handler's promise rejects:
  the result is \<open>Inl\<close>.
\<close>

definition handleFileChunk ::
  "string \<Rightarrow> string \<Rightarrow> string \<Rightarrow> string \<Rightarrow> transfer_state \<Rightarrow> js_error + transfer_state" where
  "handleFileChunk fromPeerId siteId path data st =
     (let key = transfer_key fromPeerId siteId path in
      case incomingTransfers st key of
        None \<Rightarrow> Inr st
      | Some transfer \<Rightarrow>
          (case base64ToUint8 data of
             None \<Rightarrow> Inl InvalidCharacterError
           | Some bytes \<Rightarrow>
               (let transfer' = transfer
                      \<lparr>t_chunks := t_chunks transfer @ [bytes],
                       t_receivedSize := t_receivedSize transfer + length bytes\<rparr>
                in Inr (notifyProgress (t_siteId transfer') (t_path transfer')
                          (t_receivedSize transfer') (t_totalSize transfer')
                          (st\<lparr>incomingTransfers := (incomingTransfers st)(key \<mapsto> transfer')\<rparr>)))))"

text \<open>
  \<^verbatim>\<open>finalizeIncomingFile\<close>. The blob is the concatenation of the chunks; it is stored
  under the \<^verbatim>\<open>siteId\<close> and \<^verbatim>\<open>path\<close> of the message.
\<close>

definition finalizeIncomingFile ::
  "string \<Rightarrow> string \<Rightarrow> string \<Rightarrow> transfer_state \<Rightarrow> transfer_state" where
  "finalizeIncomingFile fromPeerId siteId path st =
     (let key = transfer_key fromPeerId siteId path in
      case incomingTransfers st key of
        None \<Rightarrow> st
      | Some transfer \<Rightarrow>
          (let blob = concat (t_chunks transfer);
               st1 = st\<lparr>files := storeFile siteId path blob (t_contentType transfer)
                                    (clock st) (files st),
                        incomingTransfers := (incomingTransfers st)(key := None)\<rparr>;
               fileKey = file_key siteId path
           in case pendingRequests st1 fileKey of
                None \<Rightarrow> st1
              | Some fileRequest \<Rightarrow>
                  (settle fileRequest Resolved_true st1)
                    \<lparr>pendingRequests := (pendingRequests st1)(fileKey := None)\<rparr>))"

definition sendFileList :: "string \<Rightarrow> string \<Rightarrow> transfer_state \<Rightarrow> transfer_state" where
  "sendFileList peerId siteId st =
     (let fileList = map (\<lambda>f. \<lparr>m_path = f_path f, m_size = f_size f,
                                m_contentType = f_contentType f\<rparr>)
                         (getFilesForSite siteId (files st))
      in sendTransferMessage peerId (FileList siteId fileList) st)"

text \<open>
  \<^verbatim>\<open>sendFile\<close>. The call itself runs to \<^verbatim>\<open>await getFilesForSite(siteId)\<close> and sends
  nothing. \<open>resume_send\<close> is one continuation of the call numbered \<open>i\<close>, from the point
  at which it waits to the next \<^verbatim>\<open>await\<close> or to the end of the function:

  \<^item> after the files of the site have been read (the model reads the store when this
    continuation runs): the lookup of the path; when it finds nothing the call ends,
    otherwise \<^verbatim>\<open>file-start\<close> is sent and the call awaits the bytes of the blob;
  \<^item> after the bytes have arrived: the chunk loop is entered with \<^verbatim>\<open>offset = 0\<close>;
  \<^item> after the timer of a round: \<^verbatim>\<open>offset += CHUNK_SIZE\<close> and the test of the loop.

  \<open>chunk_round\<close> is the test of the loop \<^verbatim>\<open>offset < bytes.length\<close> with what follows it:
  a round sends the chunk \<^verbatim>\<open>bytes.slice(offset, offset + CHUNK_SIZE)\<close>, encoded with the
  code of \<^verbatim>\<open>uint8ToBase64\<close>, and awaits the timer; after the loop \<^verbatim>\<open>file-end\<close> is sent
  and the call ends. When a continuation runs is up to the event loop: the model lets it
  run at any time.
\<close>

definition slice :: "'a list \<Rightarrow> nat \<Rightarrow> nat \<Rightarrow> 'a list" where
  "slice xs start stop = take (stop - start) (drop start xs)"

definition sendFile :: "string \<Rightarrow> string \<Rightarrow> string \<Rightarrow> transfer_state \<Rightarrow> transfer_state" where
  "sendFile peerId siteId path st =
     st\<lparr>sending := (sending st)
           (nextSend st \<mapsto>
              \<lparr>j_peerId = peerId, j_siteId = siteId, j_path = path, j_phase = AwaitFiles\<rparr>),
        nextSend := nextSend st + 1\<rparr>"

definition chunk_round ::
  "nat \<Rightarrow> send_job \<Rightarrow> byte list \<Rightarrow> nat \<Rightarrow> transfer_state \<Rightarrow> transfer_state" where
  "chunk_round i job bytes offset st =
     (if offset < length bytes
      then (sendTransferMessage (j_peerId job)
              (FileChunk (j_siteId job) (j_path job)
                 (uint8ToBase64 (slice bytes offset (offset + CHUNK_SIZE)))) st)
             \<lparr>sending := (sending st)(i \<mapsto> job\<lparr>j_phase := AwaitTimer bytes offset\<rparr>)\<rparr>
      else (sendTransferMessage (j_peerId job) (FileEnd (j_siteId job) (j_path job)) st)
             \<lparr>sending := (sending st)(i := None)\<rparr>)"

definition resume_send :: "nat \<Rightarrow> transfer_state \<Rightarrow> transfer_state" where
  "resume_send i st =
     (case sending st i of
        None \<Rightarrow> st
      | Some job \<Rightarrow>
          (case j_phase job of
             AwaitFiles \<Rightarrow>
               (case find (\<lambda>f. f_path f = j_path job)
                       (getFilesForSite (j_siteId job) (files st)) of
                  None \<Rightarrow> st\<lparr>sending := (sending st)(i := None)\<rparr>
                | Some file \<Rightarrow>
                    (sendTransferMessage (j_peerId job)
                       (FileStart (j_siteId job) (j_path job) (f_contentType file) (f_size file))
                       st)
                      \<lparr>sending := (sending st)(i \<mapsto> job\<lparr>j_phase := AwaitBytes (f_content file)\<rparr>)\<rparr>)
           | AwaitBytes bytes \<Rightarrow> chunk_round i job bytes 0 st
           | AwaitTimer bytes offset \<Rightarrow> chunk_round i job bytes (offset + CHUNK_SIZE) st))"

text \<open>
  The \<^verbatim>\<open>data\<close> fields that the chunk loop sends from \<open>offset\<close> on, in sending order:
  \<^verbatim>\<open>for (...; offset < bytes.length; offset += CHUNK_SIZE)\<close> without its waiting.
\<close>

function chunk_payloads :: "byte list \<Rightarrow> nat \<Rightarrow> string list" where
  "chunk_payloads bytes offset =
     (if offset < length bytes
      then uint8ToBase64 (slice bytes offset (offset + CHUNK_SIZE))
             # chunk_payloads bytes (offset + CHUNK_SIZE)
      else [])"
  by pat_completeness auto
termination
  by (relation "measure (\<lambda>(bytes, offset). length bytes - offset)")
     (auto simp: CHUNK_SIZE_def)

declare chunk_payloads.simps [simp del]

text \<open>\<^verbatim>\<open>handleTransferMessage\<close>: the dispatch on the message type.\<close>

fun handleTransferMessage ::
  "string \<Rightarrow> transfer_msg \<Rightarrow> transfer_state \<Rightarrow> js_error + transfer_state" where
  "handleTransferMessage fromPeerId (FileListRequest siteId) st =
     Inr (sendFileList fromPeerId siteId st)"
| "handleTransferMessage fromPeerId (FileList siteId fs) st =
     (case pendingRequests st (list_key siteId) of
        None \<Rightarrow> Inr st
      | Some listRequest \<Rightarrow>
          Inr ((settle listRequest (Resolved_files fs) st)
                 \<lparr>pendingRequests := (pendingRequests st)(list_key siteId := None)\<rparr>))"
| "handleTransferMessage fromPeerId (FileRequest siteId path) st =
     Inr (sendFile fromPeerId siteId path st)"
| "handleTransferMessage fromPeerId (FileStart siteId path contentType sz) st =
     Inr (st\<lparr>incomingTransfers := (incomingTransfers st)
            (transfer_key fromPeerId siteId path \<mapsto>
               \<lparr>t_siteId = siteId, t_path = path, t_contentType = contentType,
                t_totalSize = sz, t_receivedSize = 0, t_chunks = []\<rparr>)\<rparr>)"
| "handleTransferMessage fromPeerId (FileChunk siteId path data) st =
     handleFileChunk fromPeerId siteId path data st"
| "handleTransferMessage fromPeerId (FileEnd siteId path) st =
     Inr (finalizeIncomingFile fromPeerId siteId path st)"
| "handleTransferMessage fromPeerId OtherMsg st = Inr st"

text \<open>
  The body of a timeout callback, the same in \<^verbatim>\<open>requestFileList\<close> and
  \<^verbatim>\<open>importSiteFromPeer\<close>:
  \<^verbatim>\<open>if (pendingRequests.has(key)) { pendingRequests.delete(key); reject(new Error(msg)); }\<close>
\<close>

definition timeout_callback :: "timer \<Rightarrow> transfer_state \<Rightarrow> transfer_state" where
  "timeout_callback tm st =
     (if pendingRequests st (tm_key tm) \<noteq> None
      then settle (tm_promise tm) (Rejected (Error (tm_message tm)))
             (st\<lparr>pendingRequests := (pendingRequests st)(tm_key tm := None)\<rparr>)
      else st)"

text \<open>
  \<^verbatim>\<open>requestFileList\<close>: the promise executor registers the handle, sends the request and
  sets a timer of 30000 ms. The result is the new promise and the state.
\<close>

definition requestFileList :: "string \<Rightarrow> string \<Rightarrow> transfer_state \<Rightarrow> nat \<times> transfer_state" where
  "requestFileList peerId siteId st =
     (let p = nextPromise st;
          st1 = st\<lparr>nextPromise := p + 1,
                   pendingRequests := (pendingRequests st)(list_key siteId \<mapsto> p)\<rparr>;
          st2 = sendTransferMessage peerId (FileListRequest siteId) st1
      in (p, st2\<lparr>timers := timers st2 @
                    [\<lparr>tm_due = clock st2 + 30000, tm_key = list_key siteId, tm_promise = p,
                      tm_message = ''Request timed out''\<rparr>]\<rparr>))"

text \<open>
  The promise executor of one round of the loop of \<^verbatim>\<open>importSiteFromPeer\<close>, for the file
  \<^verbatim>\<open>file.path\<close>: it registers the handle, sends \<^verbatim>\<open>file-request\<close> and sets a timer of
  60000 ms. The loop awaits this promise before its next round.
\<close>

definition requestFile ::
  "string \<Rightarrow> string \<Rightarrow> string \<Rightarrow> transfer_state \<Rightarrow> nat \<times> transfer_state" where
  "requestFile peerId siteId path st =
     (let p = nextPromise st;
          key = file_key siteId path;
          st1 = st\<lparr>nextPromise := p + 1,
                   pendingRequests := (pendingRequests st)(key \<mapsto> p)\<rparr>;
          st2 = sendTransferMessage peerId (FileRequest siteId path) st1
      in (p, st2\<lparr>timers := timers st2 @
                    [\<lparr>tm_due = clock st2 + 60000, tm_key = key, tm_promise = p,
                      tm_message = ''File transfer timed out: '' @ path\<rparr>]\<rparr>))"

text \<open>
  The clock moves to time \<open>t\<close>: the timers due by then run in the order of their due
  times (timers with equal due times in the order they were set) and are removed.
\<close>

definition advance_to :: "nat \<Rightarrow> transfer_state \<Rightarrow> transfer_state" where
  "advance_to t st =
     fold timeout_callback
       (sort_key tm_due (filter (\<lambda>tm. tm_due tm \<le> t) (timers st)))
       (st\<lparr>timers := filter (\<lambda>tm. \<not> tm_due tm \<le> t) (timers st), clock := max (clock st) t\<rparr>)"

section \<open>Events of a node\<close>

text \<open>
  What can happen to the file-transfer module: a message arrives on the
  \<^verbatim>\<open>file-transfer\<close> channel, the application asks for a file list or for a file, time
  passes, or a suspended call of \<^verbatim>\<open>sendFile\<close> continues. Where a handler throws, its
  promise rejects and nobody handles the rejection; the handlers throw before they change
  anything, so the state stays as it was.
\<close>

datatype transfer_event =
    Receive string transfer_msg
  | RequestFileList string string
  | RequestFile string string string
  | AdvanceTo nat
  | ResumeSend nat

fun transfer_step :: "transfer_event \<Rightarrow> transfer_state \<Rightarrow> transfer_state" where
  "transfer_step (Receive fromPeerId msg) st =
     (case handleTransferMessage fromPeerId msg st of Inl e \<Rightarrow> st | Inr st' \<Rightarrow> st')"
| "transfer_step (RequestFileList peerId siteId) st = snd (requestFileList peerId siteId st)"
| "transfer_step (RequestFile peerId siteId path) st = snd (requestFile peerId siteId path st)"
| "transfer_step (AdvanceTo t) st = advance_to t st"
| "transfer_step (ResumeSend i) st = resume_send i st"

definition transfer_run :: "transfer_event list \<Rightarrow> transfer_state \<Rightarrow> transfer_state" where
  "transfer_run evs st = fold transfer_step evs st"


text \<open>
  A node: the peers of \<^verbatim>\<open>WebRTCManager\<close>, the file-transfer module, and the numbers of
  calls of \<^verbatim>\<open>notifyChange\<close> and \<^verbatim>\<open>notifyPeerChange\<close> of catalog.js so far.
\<close>

record node_state =
  peers :: "string list"
  transfer :: transfer_state
  changeNotifications :: nat
  peerNotifications :: nat

definition removePeer :: "string \<Rightarrow> node_state \<Rightarrow> node_state" where
  "removePeer peerId n = n\<lparr>peers := removeAll peerId (peers n)\<rparr>"

definition notifyChange :: "node_state \<Rightarrow> node_state" where
  "notifyChange n = n\<lparr>changeNotifications := changeNotifications n + 1\<rparr>"

definition notifyPeerChange :: "node_state \<Rightarrow> node_state" where
  "notifyPeerChange n = n\<lparr>peerNotifications := peerNotifications n + 1\<rparr>"

text \<open>
  A peer leaves. \<^verbatim>\<open>WebRTCManager\<close> removes the peer and calls \<^verbatim>\<open>onPeerLeave\<close>, which
  makes \<^verbatim>\<open>Ledger\<close> emit \<^verbatim>\<open>peer-leave\<close>. The listeners of that event are the ones the
  modules register: catalog.js registers one in \<^verbatim>\<open>initCatalog\<close>, which calls
  \<^verbatim>\<open>notifyChange\<close> and \<^verbatim>\<open>notifyPeerChange\<close>; transfer.js registers none
  (\<^verbatim>\<open>initTransfer\<close> only sets the handler of custom messages).
\<close>

definition peer_leave :: "string \<Rightarrow> node_state \<Rightarrow> node_state" where
  "peer_leave peerId n = notifyPeerChange (notifyChange (removePeer peerId n))"

subsection \<open>Example runs\<close>

text \<open>
  A node that asked peer \<open>A\<close> for the file \<open>index.html\<close> of site \<open>S\<close> and has received
  \<^verbatim>\<open>file-start\<close> and one chunk of it.
\<close>

definition mid_transfer :: transfer_state where
  "mid_transfer =
     transfer_run
       [RequestFile ''A'' ''S'' ''index.html'',
        Receive ''A'' (FileStart ''S'' ''index.html'' ''text/html'' 6),
        Receive ''A'' (FileChunk ''S'' ''index.html'' ''SGkh'')]
       init_transfer_state"

definition mid_transfer_node :: node_state where
  "mid_transfer_node =
     \<lparr>peers = [''A''], transfer = mid_transfer, changeNotifications = 0,
      peerNotifications = 0\<rparr>"


text \<open>
  The file list of site \<open>S\<close> is requested at time 0 and answered at 1 s; it is requested
  again at 2 s and never answered. Time then passes to 32 s and to 100 s.
\<close>

definition stale_list_timer_run :: transfer_state where
  "stale_list_timer_run =
     transfer_run
       [RequestFileList ''A'' ''S'',
        AdvanceTo 1000,
        Receive ''A'' (FileList ''S'' []),
        AdvanceTo 2000,
        RequestFileList ''A'' ''S'',
        AdvanceTo 30000,
        AdvanceTo 32000,
        AdvanceTo 100000]
       init_transfer_state"

text \<open>
  The same for a file: requested at time 0 and received at 1 s, requested again at 2 s and
  never sent. Time passes to 62 s and to 200 s.
\<close>

definition stale_file_timer_run :: transfer_state where
  "stale_file_timer_run =
     transfer_run
       [RequestFile ''A'' ''S'' ''index.html'',
        AdvanceTo 1000,
        Receive ''A'' (FileStart ''S'' ''index.html'' ''text/html'' 3),
        Receive ''A'' (FileChunk ''S'' ''index.html'' ''SGkh''),
        Receive ''A'' (FileEnd ''S'' ''index.html''),
        AdvanceTo 2000,
        RequestFile ''A'' ''S'' ''index.html'',
        AdvanceTo 60000,
        AdvanceTo 62000,
        AdvanceTo 200000]
       init_transfer_state"

text \<open>A single request of a file list that is never answered, at 29.999 s and at 30 s.\<close>

definition lone_list_request :: transfer_state where
  "lone_list_request = transfer_run [RequestFileList ''A'' ''S''] init_transfer_state"





section \<open>Catalog (catalog.js)\<close>

text \<open>
  A row of the table \<^verbatim>\<open>sites\<close>, as a \<^verbatim>\<open>SELECT *\<close> returns it. Only \<^verbatim>\<open>id\<close> is declared
  \<^verbatim>\<open>NOT NULL\<close>; the other columns have a default but take \<^verbatim>\<open>NULL\<close>, and a change of
  another replica can put any value of a change record into a column. A \<^verbatim>\<open>TEXT\<close> column
  holds \<^verbatim>\<open>NULL\<close> (\<open>None\<close>) or a text. An \<^verbatim>\<open>INTEGER\<close> column holds \<^verbatim>\<open>NULL\<close>, an
  integer or a text.
\<close>

record site =
  s_id :: string
  s_name :: "string option"
  s_url :: "string option"
  s_description :: "string option"
  s_thumbnail :: "string option"
  s_owner_id :: "string option"
  s_content_hash :: "string option"
  s_file_count :: sql_value
  s_file_size :: sql_value
  s_added_at :: "string option"
  s_updated_at :: "string option"

text \<open>
  The argument object of \<^verbatim>\<open>addSite\<close>. A text property that is absent or \<^verbatim>\<open>null\<close> is
  \<open>None\<close>; a number property that is absent or \<^verbatim>\<open>null\<close> is \<open>SqlNull\<close>.
\<close>

record site_fields =
  a_name :: "string option"
  a_url :: "string option"
  a_description :: "string option"
  a_thumbnail :: "string option"
  a_contentHash :: "string option"
  a_fileCount :: sql_value
  a_fileSize :: sql_value

text \<open>
  \<^verbatim>\<open>v || ''\<close> and \<^verbatim>\<open>v || 0\<close>: the default replaces a value that is absent, \<^verbatim>\<open>null\<close> or
  falsy; the only falsy string is the empty one, the only falsy integer is 0. Every other
  value is kept as it is.
\<close>

definition or_string :: "string option \<Rightarrow> string \<Rightarrow> string" where
  "or_string v d = (case v of None \<Rightarrow> d | Some s \<Rightarrow> if s = [] then d else s)"

definition or_number :: "sql_value \<Rightarrow> int \<Rightarrow> sql_value" where
  "or_number v d =
     (case v of
        SqlNull \<Rightarrow> SqlInt d
      | SqlInt n \<Rightarrow> if n = 0 then SqlInt d else SqlInt n
      | SqlText s \<Rightarrow> if s = [] then SqlInt d else SqlText s)"

text \<open>
  The \<^verbatim>\<open>Ledger\<close> instance as the catalog uses it: the node id and the rows of
  \<^verbatim>\<open>sites\<close>. The module variable \<^verbatim>\<open>ledger\<close> is \<^verbatim>\<open>null\<close> until \<^verbatim>\<open>initCatalog\<close> has run.
\<close>

record ledger =
  nodeId :: string
  sites :: "site list"

type_synonym catalog = "ledger option"

text \<open>
  \<^verbatim>\<open>INSERT INTO sites (id, ...) VALUES (...)\<close>: \<^verbatim>\<open>id\<close> is the primary key, so the
  statement fails when a row with this id exists.
\<close>

definition insert_site :: "site \<Rightarrow> ledger \<Rightarrow> js_error + ledger" where
  "insert_site row l =
     (if s_id row \<in> s_id ` set (sites l) then Inl ConstraintError
      else Inr (l\<lparr>sites := sites l @ [row]\<rparr>))"

text \<open>\<^verbatim>\<open>getSite\<close>: \<^verbatim>\<open>SELECT * FROM sites WHERE id = ?\<close>, then \<^verbatim>\<open>sites[0] || null\<close>.\<close>

definition getSite :: "catalog \<Rightarrow> string \<Rightarrow> site option" where
  "getSite cat ident =
     (case cat of
        None \<Rightarrow> None
      | Some l \<Rightarrow> (case filter (\<lambda>r. s_id r = ident) (sites l) of [] \<Rightarrow> None | r # _ \<Rightarrow> Some r))"

text \<open>
  \<^verbatim>\<open>addSite\<close>. \<open>newId\<close> is what \<^verbatim>\<open>crypto.randomUUID()\<close> returns in \<^verbatim>\<open>generateId\<close> and
  \<open>stamp\<close> what \<^verbatim>\<open>new Date().toISOString()\<close> returns in \<^verbatim>\<open>timestamp\<close>. The result
  is the new row and the catalog afterwards; the call of \<^verbatim>\<open>notifyChange\<close> only runs the
  listeners of the user interface.
\<close>

definition addSite ::
  "site_fields \<Rightarrow> string \<Rightarrow> string \<Rightarrow> catalog \<Rightarrow> js_error + (site \<times> catalog)" where
  "addSite siteArg newId stamp cat =
     (case cat of
        None \<Rightarrow> Inl (Error ''Catalog not initialized'')
      | Some l \<Rightarrow>
          (let newSite =
                 \<lparr>s_id = newId,
                  s_name = Some (or_string (a_name siteArg) ''''),
                  s_url = Some (or_string (a_url siteArg) ''''),
                  s_description = Some (or_string (a_description siteArg) ''''),
                  s_thumbnail = Some (or_string (a_thumbnail siteArg) ''''),
                  s_owner_id = Some (nodeId l),
                  s_content_hash = Some (or_string (a_contentHash siteArg) ''''),
                  s_file_count = or_number (a_fileCount siteArg) 0,
                  s_file_size = or_number (a_fileSize siteArg) 0,
                  s_added_at = Some stamp,
                  s_updated_at = Some stamp\<rparr>
           in case insert_site newSite l of
                Inl e \<Rightarrow> Inl e
              | Inr l' \<Rightarrow> Inr (newSite, Some l')))"

text \<open>
  \<^verbatim>\<open>adoptSite\<close>; the result is \<^verbatim>\<open>{ newSite, originalId }\<close> and the catalog afterwards.
  The columns of the original row are passed on as they were read, \<^verbatim>\<open>NULL\<close> included.
\<close>

definition adoptSite ::
  "string \<Rightarrow> string \<Rightarrow> string \<Rightarrow> catalog \<Rightarrow> js_error + ((site \<times> string) \<times> catalog)" where
  "adoptSite originalId newId stamp cat =
     (case cat of
        None \<Rightarrow> Inl (Error ''Catalog not initialized'')
      | Some l \<Rightarrow>
          (case getSite cat originalId of
             None \<Rightarrow> Inl (Error ''Site not found'')
           | Some original \<Rightarrow>
               (case addSite
                       \<lparr>a_name = s_name original,
                        a_url = s_url original,
                        a_description = s_description original,
                        a_thumbnail = s_thumbnail original,
                        a_contentHash = s_content_hash original,
                        a_fileCount = s_file_count original,
                        a_fileSize = s_file_size original\<rparr>
                       newId stamp cat of
                  Inl e \<Rightarrow> Inl e
                | Inr (newSite, cat') \<Rightarrow> Inr ((newSite, originalId), cat'))))"

text \<open>
  A catalog of node \<open>n1\<close> holding two rows of node \<open>n2\<close>. The columns \<open>name\<close>,
  \<open>thumbnail\<close> and \<open>file_count\<close> of the second row are \<^verbatim>\<open>NULL\<close>.
\<close>

definition foreign_row :: site where
  "foreign_row =
     \<lparr>s_id = ''id-1'', s_name = Some ''Alpha'', s_url = Some '''',
      s_description = Some ''first'', s_thumbnail = Some '''', s_owner_id = Some ''n2'',
      s_content_hash = Some ''abc'', s_file_count = SqlInt 3, s_file_size = SqlInt 130000,
      s_added_at = Some ''2024-01-01T00:00:00.000Z'',
      s_updated_at = Some ''2024-01-01T00:00:00.000Z''\<rparr>"

definition null_row :: site where
  "null_row =
     \<lparr>s_id = ''id-3'', s_name = None, s_url = Some ''https://example.org'',
      s_description = Some ''second'', s_thumbnail = None, s_owner_id = Some ''n2'',
      s_content_hash = Some ''def'', s_file_count = SqlNull, s_file_size = SqlInt 7,
      s_added_at = Some ''2024-01-01T00:00:00.000Z'',
      s_updated_at = Some ''2024-01-01T00:00:00.000Z''\<rparr>"

definition two_row_catalog :: catalog where
  "two_row_catalog = Some \<lparr>nodeId = ''n1'', sites = [foreign_row, null_row]\<rparr>"

definition adopted_row :: site where
  "adopted_row =
     \<lparr>s_id = ''id-2'', s_name = Some ''Alpha'', s_url = Some '''',
      s_description = Some ''first'', s_thumbnail = Some '''', s_owner_id = Some ''n1'',
      s_content_hash = Some ''abc'', s_file_count = SqlInt 3, s_file_size = SqlInt 130000,
      s_added_at = Some ''2024-02-02T00:00:00.000Z'',
      s_updated_at = Some ''2024-02-02T00:00:00.000Z''\<rparr>"

definition adopted_null_row :: site where
  "adopted_null_row =
     \<lparr>s_id = ''id-4'', s_name = Some '''', s_url = Some ''https://example.org'',
      s_description = Some ''second'', s_thumbnail = Some '''', s_owner_id = Some ''n1'',
      s_content_hash = Some ''def'', s_file_count = SqlInt 0, s_file_size = SqlInt 7,
      s_added_at = Some ''2024-02-02T00:00:00.000Z'',
      s_updated_at = Some ''2024-02-02T00:00:00.000Z''\<rparr>"

section \<open>Local HTTP interceptor (the service worker, sw.js)\<close>

datatype response_body = Blob "byte list" | Text string

text \<open>
  A \<^verbatim>\<open>Response\<close>: the status, the headers given in its \<^verbatim>\<open>headers\<close> option, and the
  body.
\<close>

record response =
  r_status :: nat
  r_headers :: "(string \<times> string) list"
  r_body :: response_body

text \<open>\<^verbatim>\<open>Number.prototype.toString\<close> on a natural number: its decimal digits.\<close>

definition digit_char :: "nat \<Rightarrow> char" where
  "digit_char d = ''0123456789'' ! d"

function show_nat :: "nat \<Rightarrow> string" where
  "show_nat n = (if n < 10 then [digit_char n] else show_nat (n div 10) @ [digit_char (n mod 10)])"
  by pat_completeness auto
termination
  by (relation "measure (\<lambda>n. n)") auto

declare show_nat.simps [simp del]

text \<open>\<^verbatim>\<open>String.prototype.split\<close> with a one-character separator, and \<^verbatim>\<open>Array.prototype.join\<close>.\<close>

fun split_on :: "char \<Rightarrow> string \<Rightarrow> string list" where
  "split_on c [] = [[]]"
| "split_on c (x # xs) =
     (if x = c then [] # split_on c xs
      else (case split_on c xs of [] \<Rightarrow> [[x]] | p # ps \<Rightarrow> (x # p) # ps))"

fun join_with :: "string \<Rightarrow> string list \<Rightarrow> string" where
  "join_with sep [] = []"
| "join_with sep [x] = x"
| "join_with sep (x # y # ys) = x @ sep @ join_with sep (y # ys)"

definition ends_with :: "string \<Rightarrow> string \<Rightarrow> bool" where
  "ends_with s suf = (length suf \<le> length s \<and> drop (length s - length suf) s = suf)"

text \<open>
  \<^verbatim>\<open>toLowerCase\<close> is only used before \<^verbatim>\<open>endsWith('.html')\<close>; the letters of \<^verbatim>\<open>html\<close>
  are the lower case of no character but their ASCII capitals, so lowering the ASCII
  capitals decides the test.
\<close>

definition to_lower_ascii :: "char \<Rightarrow> char" where
  "to_lower_ascii c =
     (if 65 \<le> (of_char c :: nat) \<and> (of_char c :: nat) \<le> 90 then char_of (of_char c + 32 :: nat)
      else c)"

definition nl :: string where
  "nl = [CHR 0x0A]"

text \<open>Lines 311 to 316: the file path of a request, from the path parts after the site id.\<close>

definition local_file_path :: "string list \<Rightarrow> string" where
  "local_file_path rest =
     (let joined = join_with ''/'' rest;
          filePath = (if joined = [] then ''index.html'' else joined)
      in if ends_with filePath ''/'' then filePath @ ''index.html'' else filePath)"

text \<open>The predicate of the search for a root page among all files of the site.\<close>

definition is_root_page :: "stored_file \<Rightarrow> bool" where
  "is_root_page f =
     (f_path f = ''index.html'' \<or> f_path f = ''Index.html''
      \<or> (CHR ''/'' \<notin> set (f_path f) \<and> ends_with (map to_lower_ascii (f_path f)) ''.html''))"

text \<open>The page sent with status 404, a template string in the source.\<close>

definition debugHtml :: "string \<Rightarrow> string \<Rightarrow> stored_file list \<Rightarrow> string" where
  "debugHtml filePath siteId allFiles =
     (let fileList = join_with nl
            (map (\<lambda>f. ''<li>'' @ f_path f @ '' ('' @ show_nat (f_size f) @ '' bytes)</li>'')
                 allFiles)
      in ''<!DOCTYPE html>'' @ nl @ ''<html>'' @ nl
         @ ''<head><title>Debug - File Not Found</title></head>'' @ nl
         @ ''<body>'' @ nl
         @ ''<h1>File not found: '' @ filePath @ ''</h1>'' @ nl
         @ ''<h2>Site ID: '' @ siteId @ ''</h2>'' @ nl
         @ ''<h2>Available files ('' @ show_nat (length allFiles) @ ''):</h2>'' @ nl
         @ ''<ul>'' @ (if fileList = [] then ''<li>No files found</li>'' else fileList)
         @ ''</ul>'' @ nl
         @ ''</body>'' @ nl @ ''</html>'')"

text \<open>
  \<^verbatim>\<open>handleLocalRequest\<close>, on the path name of the request URL and the object store.
  \<^verbatim>\<open>getFileFromDB\<close> is the lookup of the key \<^verbatim>\<open>siteId/path\<close> and
  \<^verbatim>\<open>getAllFilesForSite\<close> the query of the index \<^verbatim>\<open>siteId\<close>, as in persistence.js. A
  stored \<^verbatim>\<open>content\<close> is a blob object, which is truthy, so \<^verbatim>\<open>file && file.content\<close> holds
  when the record is found. The branch of status 500 answers a failure of the database
  itself, which the store here does not have.
\<close>

definition handleLocalRequest :: "object_store \<Rightarrow> string \<Rightarrow> response" where
  "handleLocalRequest db pathname =
     (let pathParts = filter (\<lambda>p. p \<noteq> []) (split_on (CHR ''/'') pathname) in
      if (case pathParts of [] \<Rightarrow> True | p0 # _ \<Rightarrow> p0 \<noteq> ''local'') \<or> length pathParts < 2
      then \<lparr>r_status = 404, r_headers = [], r_body = Text ''Not Found''\<rparr>
      else
        (let siteId = pathParts ! 1;
             filePath = local_file_path (drop 2 pathParts);
             found = getFile siteId filePath db;
             file = (if found = None \<and> (filePath = ''index.html'' \<or> filePath = [])
                     then find is_root_page (getFilesForSite siteId db)
                     else found)
         in case file of
              Some f \<Rightarrow>
                \<lparr>r_status = 200,
                 r_headers =
                   [(''Content-Type'',
                     if f_contentType f = [] then ''application/octet-stream''
                     else f_contentType f),
                    (''Content-Length'', show_nat (f_size f)),
                    (''X-Scrap-Yard'', ''cached'')],
                 r_body = Blob (f_content f)\<rparr>
            | None \<Rightarrow>
                (case (if CHR ''.'' \<notin> set filePath
                       then getFile siteId (filePath @ ''.html'') db else None) of
                   Some htmlFile \<Rightarrow>
                     \<lparr>r_status = 200,
                      r_headers = [(''Content-Type'', ''text/html''),
                                   (''X-Scrap-Yard'', ''cached'')],
                      r_body = Blob (f_content htmlFile)\<rparr>
                 | None \<Rightarrow>
                     (case getFile siteId (filePath @ ''/index.html'') db of
                        Some indexFile \<Rightarrow>
                          \<lparr>r_status = 200,
                           r_headers = [(''Content-Type'', ''text/html''),
                                        (''X-Scrap-Yard'', ''cached'')],
                           r_body = Blob (f_content indexFile)\<rparr>
                      | None \<Rightarrow>
                          \<lparr>r_status = 404,
                           r_headers = [(''Content-Type'', ''text/html'')],
                           r_body = Text (debugHtml filePath siteId
                                            (getFilesForSite siteId db))\<rparr>))))"

text \<open>
  A store with the page \<open>index.html\<close> of site \<open>S\<close> and a page \<open>about.html\<close> stored
  with another content type.
\<close>

definition about_file :: stored_file where
  "about_file =
     \<lparr>f_key = ''S/about.html'', f_siteId = ''S'', f_path = ''about.html'',
      f_contentType = ''application/xhtml+xml'', f_content = [60, 62], f_size = 2,
      f_cachedAt = 0\<rparr>"

definition two_page_store :: object_store where
  "two_page_store = [about_file, hi_file]"

text \<open>
  A store with three pages of site \<open>S\<close> and one page of site \<open>T\<close>, which has no
  \<open>index.html\<close> and whose page was stored without a content type.
\<close>

definition docs_file :: stored_file where
  "docs_file =
     \<lparr>f_key = ''S/docs/index.html'', f_siteId = ''S'', f_path = ''docs/index.html'',
      f_contentType = ''text/plain'', f_content = [100], f_size = 1, f_cachedAt = 0\<rparr>"

definition home_file :: stored_file where
  "home_file =
     \<lparr>f_key = ''T/home.html'', f_siteId = ''T'', f_path = ''home.html'',
      f_contentType = [], f_content = [104, 105], f_size = 2, f_cachedAt = 0\<rparr>"

definition site_store :: object_store where
  "site_store = [about_file, docs_file, hi_file, home_file]"

section \<open>Signaling client: the reconnect state machine (ledger.js, SignalingClient)\<close>

text \<open>
  The fields of \<^verbatim>\<open>SignalingClient\<close> that \<^verbatim>\<open>handleDisconnect\<close> reads or writes.
  \<^verbatim>\<open>maxReconnectAttempts = 10\<close>, \<^verbatim>\<open>baseDelay = 1e3\<close> and \<^verbatim>\<open>maxDelay = 3e4\<close> are
  instance fields initialised once and never assigned again; they are constants here.
\<close>

record SignalingClient =
  reconnectAttempts :: nat
  shouldReconnect :: bool
  isInitialConnect :: bool

definition maxReconnectAttempts :: nat where
  "maxReconnectAttempts = 10"

definition baseDelay :: nat where
  "baseDelay = 1000"

definition maxDelay :: nat where
  "maxDelay = 30000"

definition new_SignalingClient :: SignalingClient where
  "new_SignalingClient =
     \<lparr>reconnectAttempts = 0, shouldReconnect = True, isInitialConnect = True\<rparr>"

text \<open>Events passed to \<^verbatim>\<open>emit\<close>; \<^verbatim>\<open>reconnecting\<close> carries the attempt number.\<close>

datatype signaling_event = Reconnecting nat | Reconnected | Disconnected

text \<open>
  The result of one call of \<^verbatim>\<open>handleDisconnect\<close>: the client afterwards, the events
  emitted in order, and the delay in milliseconds passed to \<^verbatim>\<open>setTimeout\<close> for the
  reconnect (\<open>None\<close> when no timer is set).
\<close>

definition handleDisconnect ::
  "SignalingClient \<Rightarrow> SignalingClient \<times> signaling_event list \<times> nat option" where
  "handleDisconnect c =
     (if \<not> shouldReconnect c then (c, [Disconnected], None)
      else if reconnectAttempts c < maxReconnectAttempts then
        (let c' = c\<lparr>reconnectAttempts := reconnectAttempts c + 1\<rparr>;
             delay = min (baseDelay * 2 ^ (reconnectAttempts c' - 1)) maxDelay
         in (c', [Reconnecting (reconnectAttempts c')], Some delay))
      else (c, [Disconnected], None))"

section \<open>Base64 round trip\<close>

lemma index_of_nth: "distinct xs \<Longrightarrow> i < length xs \<Longrightarrow> index_of (xs ! i) xs = Some i"
proof (induction xs arbitrary: i)
  case Nil
  then show ?case by simp
next
  case (Cons x xs)
  show ?case
  proof (cases i)
    case 0
    then show ?thesis by simp
  next
    case (Suc j)
    with Cons.prems have "xs ! j \<in> set xs" "x \<notin> set xs" by auto
    then have "xs ! j \<noteq> x" by auto
    with Suc Cons show ?thesis by simp
  qed
qed

lemma distinct_b64_alphabet: "distinct b64_alphabet"
  by (simp add: b64_alphabet_def)

lemma length_b64_alphabet: "length b64_alphabet = 64"
  by (simp add: b64_alphabet_def)

lemma b64_index_char: "i < 64 \<Longrightarrow> b64_index (b64_char i) = Some i"
  by (simp add: b64_index_def b64_char_def index_of_nth distinct_b64_alphabet
      length_b64_alphabet)

lemma b64_alphabet_plain:
  "c \<in> set b64_alphabet \<Longrightarrow> \<not> is_ascii_whitespace c \<and> c \<noteq> CHR ''=''"
  by (auto simp: b64_alphabet_def is_ascii_whitespace_def)

lemma b64_char_plain: "i < 64 \<Longrightarrow> \<not> is_ascii_whitespace (b64_char i) \<and> b64_char i \<noteq> CHR ''=''"
  by (rule b64_alphabet_plain) (simp add: b64_char_def length_b64_alphabet)



lemma div16: "(b::nat) < 16 \<Longrightarrow> (a * 16 + b) div 16 = a" by simp
lemma mod16: "(b::nat) < 16 \<Longrightarrow> (a * 16 + b) mod 16 = b" by simp
lemma div4: "(b::nat) < 4 \<Longrightarrow> (a * 4 + b) div 4 = a" by simp
lemma mod4: "(b::nat) < 4 \<Longrightarrow> (a * 4 + b) mod 4 = b" by simp
lemma d16: "(y::nat) < 256 \<Longrightarrow> y div 16 < 16" by (simp add: less_mult_imp_div_less)
lemma d64: "(z::nat) < 256 \<Longrightarrow> z div 64 < 4" by (simp add: less_mult_imp_div_less)
lemma d4: "(x::nat) < 256 \<Longrightarrow> x div 4 < 64" by (simp add: less_mult_imp_div_less)
lemma m4: "(x::nat) mod 4 * 16 + k < 64" if "k < 16" 
proof -
  have "x mod 4 < 4" by simp
  then have "x mod 4 \<le> 3" by linarith
  then have "x mod 4 * 16 \<le> 3 * 16" by (rule mult_le_mono1)
  with that show ?thesis by linarith
qed
lemma m16: "(y::nat) mod 16 * 4 + k < 64" if "k < 4" 
proof -
  have "y mod 16 < 16" by simp
  then have "y mod 16 \<le> 15" by linarith
  then have "y mod 16 * 4 \<le> 15 * 4" by (rule mult_le_mono1)
  with that show ?thesis by linarith
qed

lemma recombine1: "(y::nat) < 256 \<Longrightarrow> x div 4 * 4 + (x mod 4 * 16 + y div 16) div 16 = x"
  by (simp add: div16 d16)

lemma recombine2:
  "(y::nat) < 256 \<Longrightarrow> (z::nat) < 256 \<Longrightarrow>
   ((x::nat) mod 4 * 16 + y div 16) mod 16 * 16 + (y mod 16 * 4 + z div 64) div 4 = y"
  by (simp add: mod16 d16 div4 d64)

lemma recombine3:
  "(z::nat) < 256 \<Longrightarrow> ((y::nat) mod 16 * 4 + z div 64) mod 4 * 64 + z mod 64 = z"
  by (simp add: mod4 d64)

lemma len3: "(3 + n) div 3 = Suc (n div 3)" "(3 + n) mod 3 = n mod 3" by simp_all

lemma pad_len:
  fixes n :: nat
  shows "(4 * (n div 3) + (if n mod 3 = 0 then 0 else n mod 3 + 1)) mod 4 \<noteq> 1"
proof -
  have "n mod 3 = 0 \<or> n mod 3 = 1 \<or> n mod 3 = 2" by linarith
  then show ?thesis by (elim disjE) (simp_all add: mod_Suc)
qed


lemma sextets_bound: "\<forall>v \<in> set (sextets s). v < 64"
proof (induction s rule: sextets.induct)
  case (2 a)
  show ?case using d4 [of "of_char a"] m4 [of 0 "of_char a"] by (simp add: Let_def)
next
  case (3 a b)
  show ?case
    using d4 [of "of_char a"] m4 [OF d16, of "of_char b" "of_char a"] m16 [of 0 "of_char b"]
    by (simp add: Let_def)
next
  case (4 a b c rest)
  then show ?case
    using d4 [of "of_char a"] m4 [OF d16, of "of_char b" "of_char a"]
      m16 [OF d64, of "of_char c" "of_char b"]
    by (simp add: Let_def)
qed simp

lemma unsextets_sextets: "unsextets (sextets s) = s"
proof (induction s rule: sextets.induct)
  case (2 a)
  show ?case using recombine1 [of 0 "of_char a"] by (simp add: Let_def)
next
  case (3 a b)
  have b: "(of_char b :: nat) < 256" by simp
  show ?case
    using recombine1 [OF b, of "of_char a"] recombine2 [OF b, of 0 "of_char a"]
    by (simp add: Let_def)
next
  case (4 a b c rest)
  have b: "(of_char b :: nat) < 256" and c: "(of_char c :: nat) < 256" by simp_all
  show ?case
    using 4 recombine1 [OF b, of "of_char a"] recombine2 [OF b c, of "of_char a"]
      recombine3 [OF c, of "of_char b"]
    by (simp add: Let_def)
qed simp

lemma length_sextets:
  "length (sextets s) =
     4 * (length s div 3) + (if length s mod 3 = 0 then 0 else length s mod 3 + 1)"
  by (induction s rule: sextets.induct) (simp_all add: Let_def len3)

lemma those_b64_index:
  "\<forall>v \<in> set vs. v < 64 \<Longrightarrow> those (map b64_index (map b64_char vs)) = Some vs"
  by (induction vs) (simp_all add: b64_index_char)

lemma filter_ws_b64:
  "\<forall>v \<in> set vs. v < 64 \<Longrightarrow>
   filter (\<lambda>c. \<not> is_ascii_whitespace c) (map b64_char vs) = map b64_char vs"
  by (induction vs) (simp_all add: b64_char_plain)

lemma eq_not_ws: "\<not> is_ascii_whitespace (CHR ''='')"
  by (simp add: is_ascii_whitespace_def)

lemma strip_padding_0:
  "length xs mod 4 = 0 \<Longrightarrow> (xs = [] \<or> last xs \<noteq> CHR ''='') \<Longrightarrow> strip_padding xs = xs"
  by (cases xs rule: rev_cases) (auto simp: strip_padding_def split: list.splits)

lemma strip_padding_1:
  assumes "length xs mod 4 = 3" and "last xs \<noteq> CHR ''=''"
  shows "strip_padding (xs @ [CHR ''='']) = xs"
proof -
  from assms(1) have ne: "xs \<noteq> []" by auto
  then obtain ys y where xs: "xs = ys @ [y]" by (cases xs rule: rev_cases) auto
  from assms(1) have "length (xs @ [CHR ''='']) mod 4 = 0" by (simp add: mod_Suc)
  then show ?thesis using assms(2) xs by (simp add: strip_padding_def)
qed

lemma strip_padding_2:
  assumes "length xs mod 4 = 2"
  shows "strip_padding (xs @ [CHR ''='', CHR ''='']) = xs"
proof -
  from assms have "length (xs @ [CHR ''='', CHR ''='']) mod 4 = 0" by (simp add: mod_Suc)
  then show ?thesis by (simp add: strip_padding_def)
qed

lemma last_b64: "vs \<noteq> [] \<Longrightarrow> \<forall>v \<in> set vs. v < 64 \<Longrightarrow> last (map b64_char vs) \<noteq> CHR ''=''"
  by (simp add: last_map b64_char_plain)

lemma strip_padding_btoa: "strip_padding (btoa s) = map b64_char (sextets s)"
proof -
  let ?body = "map b64_char (sextets s)"
  have cases: "length s mod 3 = 0 \<or> length s mod 3 = 1 \<or> length s mod 3 = 2" by linarith
  have bd: "\<forall>v \<in> set (sextets s). v < 64" by (rule sextets_bound)
  show ?thesis
    using cases
  proof (elim disjE)
    assume m: "length s mod 3 = 0"
    then have len: "length ?body mod 4 = 0" by (simp add: length_sextets)
    have "?body = [] \<or> last ?body \<noteq> CHR ''=''"
      using last_b64 [OF _ bd] by auto
    with len m show ?thesis by (simp add: btoa_def strip_padding_0)
  next
    assume m: "length s mod 3 = 1"
    then have len: "length ?body mod 4 = 2" by (simp add: length_sextets mod_Suc)
    have "(3 - length s mod 3) mod 3 = 2" using m by simp
    then have "btoa s = ?body @ [CHR ''='', CHR ''='']"
      by (simp add: btoa_def numeral_2_eq_2)
    with len show ?thesis by (simp add: strip_padding_2)
  next
    assume m: "length s mod 3 = 2"
    then have len: "length ?body mod 4 = 3" by (simp add: length_sextets mod_Suc)
    then have "sextets s \<noteq> []" by auto
    then have l: "last ?body \<noteq> CHR ''=''" by (rule last_b64 [OF _ bd])
    have "(3 - length s mod 3) mod 3 = 1" using m by simp
    then have "btoa s = ?body @ [CHR ''='']" by (simp add: btoa_def)
    with len l show ?thesis by (simp add: strip_padding_1)
  qed
qed

lemma filter_ws_btoa: "filter (\<lambda>c. \<not> is_ascii_whitespace c) (btoa s) = btoa s"
  by (simp add: btoa_def filter_ws_b64 sextets_bound eq_not_ws)

lemma atob_btoa: "atob (btoa s) = Some s"
proof -
  have "length (map b64_char (sextets s)) mod 4 \<noteq> 1"
    using pad_len [of "length s"] by (simp add: length_sextets)
  then show ?thesis
    using those_b64_index [OF sextets_bound, of s]
    by (simp add: atob_def filter_ws_btoa strip_padding_btoa unsextets_sextets del: map_map)
qed

lemma byte_char_roundtrip: "word_of_nat (of_char (char_of (unat (b :: byte)))) = b"
proof -
  have "unat b < 256" using unsigned_less [of b, where ?'a = nat] by simp
  then have "unat b mod 256 = unat b" by simp
  then show ?thesis by simp
qed

lemma base64_roundtrip: "base64ToUint8 (uint8ToBase64 bytes) = Some bytes"
  by (simp add: base64ToUint8_def uint8ToBase64_def atob_btoa o_def byte_char_roundtrip
      del: of_char_of)

section \<open>Properties of the replicated store\<close>

subsection \<open>Packed keys\<close>

lemma be_bytes_length [simp]: "length (be_bytes k n) = k"
  by (induction k arbitrary: n) simp_all

lemma be_nat_snoc: "be_nat (bs @ [b]) = be_nat bs * 256 + unat b"
  by (simp add: be_nat_def)

lemma unat_byte_of_nat: "unat (word_of_nat n :: byte) = n mod 256"
  by (simp add: unsigned_of_nat take_bit_eq_mod)

lemma be_nat_be_bytes: "be_nat (be_bytes k n) = n mod 256 ^ k"
proof (induction k arbitrary: n)
  case 0
  show ?case by (simp add: be_nat_def)
next
  case (Suc k)
  have "be_nat (be_bytes (Suc k) n) = (n div 256 mod 256 ^ k) * 256 + n mod 256"
    by (simp add: be_nat_snoc Suc unat_byte_of_nat)
  also have "\<dots> = n mod 256 ^ Suc k"
    by (simp add: mod_mult2_eq)
  finally show ?case .
qed

lemma num_bytes_needed_le: "num_bytes_needed n \<le> 8"
  by (simp add: num_bytes_needed_def)

lemma num_bytes_needed_fits:
  "n < 18446744073709551616 \<Longrightarrow> n < 256 ^ num_bytes_needed n"
  by (simp add: num_bytes_needed_def)

lemma type_byte:
  assumes "k \<le> 8" and "t < 8"
  shows "unat (word_of_nat (k * 8 + t) :: byte) mod 8 = t"
    and "unat (word_of_nat (k * 8 + t) :: byte) div 8 = k"
proof -
  from assms have "k * 8 + t < 256" by simp
  then have u: "unat (word_of_nat (k * 8 + t) :: byte) = k * 8 + t"
    by (simp only: unat_byte_of_nat) simp
  show "unat (word_of_nat (k * 8 + t) :: byte) mod 8 = t"
    using assms by (simp only: u) simp
  show "unat (word_of_nat (k * 8 + t) :: byte) div 8 = k"
    using assms by (simp only: u)
qed

lemma unpack_ok_pack_value:
  assumes "case v of SqlText s \<Rightarrow> length s < 1000000000 | _ \<Rightarrow> True"
  shows "unpack_ok (Suc n) (pack_value v @ bs) = unpack_ok n bs"
proof (cases v)
  case SqlNull
  show ?thesis by (simp add: SqlNull pack_value_def)
next
  case (SqlInt i)
  define u where "u = nat (i mod 18446744073709551616)"
  define k where "k = num_bytes_needed u"
  have k8: "k \<le> 8" unfolding k_def by (rule num_bytes_needed_le)
  have p: "pack_value v @ bs = word_of_nat (k * 8 + 1) # (be_bytes k u @ bs)"
    by (simp add: SqlInt pack_value_def Let_def u_def k_def)
  show ?thesis
    by (simp only: p unpack_ok.simps Let_def type_byte [OF k8]) (simp add: k8)
next
  case (SqlText s)
  define k where "k = num_bytes_needed (length s)"
  have k8: "k \<le> 8" unfolding k_def by (rule num_bytes_needed_le)
  from assms SqlText have "length s < 18446744073709551616" by simp
  then have "length s < 256 ^ k" unfolding k_def by (rule num_bytes_needed_fits)
  then have len: "be_nat (be_bytes k (length s)) = length s"
    by (simp add: be_nat_be_bytes)
  have p: "pack_value v @ bs =
             word_of_nat (k * 8 + 3)
               # (be_bytes k (length s) @ (map (\<lambda>c. word_of_nat (of_char c)) s @ bs))"
    by (simp add: SqlText pack_value_def Let_def k_def)
  show ?thesis
    by (simp only: p unpack_ok.simps Let_def type_byte [OF k8]) (simp add: k8 len)
qed

lemma unpack_ok_pack_values:
  "list_all (\<lambda>v. case v of SqlText s \<Rightarrow> length s < 1000000000 | _ \<Rightarrow> True) vs \<Longrightarrow>
   unpack_ok (length vs) (concat (map pack_value vs))"
  by (induction vs) (simp_all add: unpack_ok_pack_value)

lemma packed_ok_pack_columns:
  assumes "key_packable vs"
  shows "packed_ok (pack_columns vs)"
proof -
  have eq: "(\<lambda>v. case v of SqlText s \<Rightarrow> int (length s) < 1000000000 | _ \<Rightarrow> True)
              = (\<lambda>v. case v of SqlText s \<Rightarrow> length s < 1000000000 | _ \<Rightarrow> True)"
    by (rule ext) (simp split: sql_value.splits)
  from assms have len: "length vs < 256"
    and "list_all (\<lambda>v. case v of SqlText s \<Rightarrow> length s < 1000000000 | _ \<Rightarrow> True) vs"
    by (simp_all add: key_packable_def eq)
  then have "unpack_ok (length vs) (concat (map pack_value vs))"
    by (simp add: unpack_ok_pack_values)
  with len show ?thesis
    by (simp add: packed_ok_def pack_columns_def unat_byte_of_nat)
qed

subsection \<open>Registers\<close>

lemma cell_of_stamp [simp]: "cell_of (c\<lparr>c_db_version := v, c_seq := s\<rparr>) = cell_of c"
  by (simp add: cell_of_def)

lemma register_of_stamp [simp]:
  "register_of (c\<lparr>c_db_version := v, c_seq := s\<rparr>) = register_of c"
  by (simp add: register_of_def)

lemma find_replaced:
  assumes "cell_of c' = kc"
  shows "find (\<lambda>e. cell_of e = k) (filter (\<lambda>e. cell_of e \<noteq> kc) xs @ [c'])
           = (if k = kc then Some c' else find (\<lambda>e. cell_of e = k) xs)"
  using assms by (induction xs) auto

lemma lookup_store_change:
  "lookup_cell k (db_changes (store_change c db)) =
     (if k = cell_of c then Some (c\<lparr>c_db_version := db_version db + 1, c_seq := 0\<rparr>)
      else lookup_cell k (db_changes db))"
  by (simp add: lookup_cell_def store_change_def find_replaced)

lemma registers_store_change:
  "registers (store_change c db) k =
     (if k = cell_of c then Some (register_of c) else registers db k)"
  by (simp add: registers_def lookup_store_change)

lemma registers_insert:
  "registers (crsql_merge c db) k =
     (if k = cell_of c then max (registers db k) (Some (register_of c)) else registers db k)"
proof (cases "lookup_cell (cell_of c) (db_changes db)")
  case None
  then have "registers db (cell_of c) = None" by (simp add: registers_def)
  with None show ?thesis
    by (simp add: crsql_merge_def registers_store_change max_def)
next
  case (Some e)
  then have r: "registers db (cell_of c) = Some (register_of e)" by (simp add: registers_def)
  show ?thesis
  proof (cases "register_of e < register_of c")
    case True
    then have "register_of e \<le> register_of c" by (rule less_imp_le)
    with True Some r show ?thesis
      by (simp add: crsql_merge_def registers_store_change max_def)
  next
    case False
    have same: "crsql_merge c db = db"
      by (simp add: crsql_merge_def Some if_not_P [OF False])
    from False have "register_of c \<le> register_of e" by simp
    then have "max (Some (register_of e)) (Some (register_of c)) = Some (register_of e)"
      by (simp add: max_absorb1)
    with r show ?thesis by (simp add: same)
  qed
qed

lemma registers_fold_insert:
  "registers (fold crsql_merge cs db) k = merge_at k cs (registers db k)"
proof (induction cs arbitrary: db)
  case Nil
  show ?case by (simp add: merge_at_def)
next
  case (Cons c cs)
  have "registers (fold crsql_merge (c # cs) db) k
          = merge_at k cs (registers (crsql_merge c db) k)"
    using Cons [of "crsql_merge c db"] by simp
  also have "\<dots> = merge_at k (c # cs) (registers db k)"
    by (simp add: registers_insert merge_at_def)
  finally show ?case .
qed

lemma merge_at_max: "merge_at k cs r = max r (merge_at k cs None)"
proof (induction cs arbitrary: r)
  case Nil
  show ?case by (simp add: merge_at_def max_absorb1)
next
  case (Cons c cs)
  show ?case
  proof (cases "cell_of c = k")
    case True
    have "merge_at k (c # cs) r = merge_at k cs (max r (Some (register_of c)))"
      using True by (simp add: merge_at_def)
    also have "\<dots> = max (max r (Some (register_of c))) (merge_at k cs None)"
      by (rule Cons)
    also have "\<dots> = max r (max (Some (register_of c)) (merge_at k cs None))"
      by (simp add: max.assoc)
    also have "max (Some (register_of c)) (merge_at k cs None)
                 = merge_at k cs (Some (register_of c))"
      by (rule Cons [symmetric])
    also have "merge_at k cs (Some (register_of c)) = merge_at k (c # cs) None"
      using True by (simp add: merge_at_def max_def)
    finally show ?thesis .
  next
    case False
    then have skip: "merge_at k (c # cs) r = merge_at k cs r" for r
      by (simp add: merge_at_def)
    show ?thesis by (simp only: skip) (rule Cons)
  qed
qed

lemma merge_at_absent:
  "k \<notin> cell_of ` set cs \<Longrightarrow> merge_at k cs r = r"
  by (induction cs arbitrary: r) (auto simp: merge_at_def)

lemma merge_at_distinct:
  "distinct (map cell_of cs) \<Longrightarrow>
   merge_at k cs None = map_option register_of (find (\<lambda>e. cell_of e = k) cs)"
proof (induction cs)
  case Nil
  show ?case by (simp add: merge_at_def)
next
  case (Cons c cs)
  show ?case
  proof (cases "cell_of c = k")
    case True
    with Cons.prems have "k \<notin> cell_of ` set cs" by auto
    then have "merge_at k cs (Some (register_of c)) = Some (register_of c)"
      by (rule merge_at_absent)
    moreover have "merge_at k (c # cs) None = merge_at k cs (Some (register_of c))"
      using True by (simp add: merge_at_def max_def)
    ultimately show ?thesis using True by simp
  next
    case False
    then have "merge_at k (c # cs) None = merge_at k cs None" by (simp add: merge_at_def)
    with Cons False show ?thesis by simp
  qed
qed

text \<open>
  Merging all rows of a well-formed database \<open>s\<close> into \<open>r\<close> leaves in every cell the
  greater of the two registers.
\<close>

lemma registers_merge_all:
  assumes "well_formed s"
  shows "registers (fold crsql_merge (db_changes s) r) k
           = max (registers r k) (registers s k)"
proof -
  have "registers (fold crsql_merge (db_changes s) r) k
          = max (registers r k) (merge_at k (db_changes s) None)"
    by (simp only: registers_fold_insert merge_at_max [of k "db_changes s" "registers r k"])
  also have "merge_at k (db_changes s) None = registers s k"
    using assms by (simp add: well_formed_def merge_at_distinct registers_def lookup_cell_def)
  finally show ?thesis .
qed

subsection \<open>The invariant\<close>

lemma well_formed_open: "well_formed (open_crsqlite site)"
  by (simp add: well_formed_def open_crsqlite_def)

lemma well_formed_store_change:
  assumes "well_formed db" and "packed_ok (c_pk c)"
  shows "well_formed (store_change c db)"
proof -
  have "distinct (map cell_of (filter (\<lambda>e. cell_of e \<noteq> cell_of c) (db_changes db)))"
    using assms(1) by (simp add: well_formed_def distinct_map_filter)
  moreover have "cell_of c \<notin> cell_of ` set (filter (\<lambda>e. cell_of e \<noteq> cell_of c) (db_changes db))"
    by auto
  ultimately have "distinct (map cell_of (db_changes (store_change c db)))"
    by (simp add: store_change_def)
  moreover have "list_all (\<lambda>e. 0 < c_db_version e) (db_changes (store_change c db))"
    using assms(1) by (simp add: well_formed_def store_change_def list_all_iff)
  moreover have "list_all (\<lambda>e. packed_ok (c_pk e)) (db_changes (store_change c db))"
    using assms by (simp add: well_formed_def store_change_def list_all_iff)
  ultimately show ?thesis by (simp add: well_formed_def)
qed

lemma well_formed_merge:
  "well_formed db \<Longrightarrow> packed_ok (c_pk c) \<Longrightarrow> well_formed (crsql_merge c db)"
  by (simp add: crsql_merge_def well_formed_store_change split: option.splits)

lemma well_formed_local_write: "well_formed db \<Longrightarrow> well_formed (apply_local_write w db)"
  by (cases w) (simp_all add: Let_def well_formed_store_change packed_ok_pack_columns)

lemma well_formed_fold_merge:
  "well_formed db \<Longrightarrow> list_all (\<lambda>e. packed_ok (c_pk e)) cs \<Longrightarrow>
   well_formed (fold crsql_merge cs db)"
  by (induction cs arbitrary: db) (simp_all add: well_formed_merge)

lemma well_formed_fold_local:
  "well_formed db \<Longrightarrow> well_formed (fold apply_local_write ws db)"
  by (induction ws arbitrary: db) (simp_all add: well_formed_local_write)

subsection \<open>Sending all changes\<close>

lemma from_wire_to_wire: "from_wire (to_wire row) = Some row"
  by (simp add: from_wire_def to_wire_def base64_roundtrip)

lemma applyChanges_loop_to_wire:
  "list_all (\<lambda>e. packed_ok (c_pk e)) rows \<Longrightarrow>
   applyChanges_loop crsql_insert_change (map to_wire rows) db = (fold crsql_merge rows db, None)"
  by (induction rows arbitrary: db) (simp_all add: from_wire_to_wire crsql_insert_change_def)

lemma changes_since_0:
  "well_formed s \<Longrightarrow> filter (\<lambda>row. 0 < c_db_version row) (db_changes s) = db_changes s"
  by (simp add: well_formed_def list_all_iff)

lemma send_all_opened:
  assumes "cr_db sender = Some s" and "well_formed s" and "cr_db receiver = Some r"
  shows "send_all sender receiver =
           Some (sender\<lparr>cr_dbVersion := db_version s\<rparr>,
                 receiver\<lparr>cr_db := Some (fold crsql_merge (db_changes s) r),
                          cr_dbVersion :=
                            db_version (fold crsql_merge (db_changes s) r)\<rparr>)"
proof -
  from assms(2) have "list_all (\<lambda>e. packed_ok (c_pk e)) (db_changes s)"
    by (simp add: well_formed_def)
  then have "applyChanges_loop crsql_insert_change (map to_wire (db_changes s)) r
               = (fold crsql_merge (db_changes s) r, None)"
    by (rule applyChanges_loop_to_wire)
  with assms show ?thesis
    by (simp add: send_all_def getChanges_def applyChanges_def changes_since_0)
qed

subsection \<open>Applying a batch\<close>

lemma applyChanges_loop_prefix:
  "those (map from_wire good) = Some rows \<Longrightarrow> exec_all exec rows db = Inr db' \<Longrightarrow>
   applyChanges_loop exec (good @ rest) db = applyChanges_loop exec rest db'"
proof (induction good arbitrary: db rows)
  case Nil
  then show ?case by simp
next
  case (Cons g good)
  from Cons.prems(1) obtain r rs where g: "from_wire g = Some r"
    and rs: "those (map from_wire good) = Some rs" and rows: "rows = r # rs"
    by (auto split: option.splits)
  from Cons.prems(2) rows obtain db1 where r: "exec r db = Inr db1"
    and all: "exec_all exec rs db1 = Inr db'"
    by (auto split: sum.splits)
  show ?case using Cons.IH [OF rs all] g r by simp
qed

text \<open>
  Claim C1, as the code has it. \<^verbatim>\<open>applyChanges\<close> applies the records of a batch one by
  one, in order, each in a statement of its own, whatever the database does with a
  statement. When every record decodes and every statement succeeds, all are applied and
  the cached version is refreshed. When a record does not decode, or the database rejects
  the statement of a record, the records before it have been applied and stay applied,
  this record and the ones after it are not applied, the cached version is not refreshed,
  and the error is thrown. On a database that is not opened the call throws and applies
  nothing.
\<close>

theorem C1_apply_changes_stops_at_failure:
  "(cr_db d = Some db \<and> those (map from_wire changes) = Some all_rows
      \<and> exec_all exec all_rows db = Inr db_all \<longrightarrow>
      applyChanges exec changes d =
        (d\<lparr>cr_db := Some db_all, cr_dbVersion := db_version db_all\<rparr>, None))
   \<and> (cr_db d = Some db \<and> those (map from_wire good) = Some rows
        \<and> exec_all exec rows db = Inr db' \<and> from_wire bad = None \<longrightarrow>
        applyChanges exec (good @ bad # rest) d =
          (d\<lparr>cr_db := Some db'\<rparr>, Some InvalidCharacterError))
   \<and> (cr_db d = Some db \<and> those (map from_wire good) = Some rows
        \<and> exec_all exec rows db = Inr db' \<and> from_wire refused = Some row
        \<and> exec row db' = Inl e \<longrightarrow>
        applyChanges exec (good @ refused # rest) d = (d\<lparr>cr_db := Some db'\<rparr>, Some e))
   \<and> (cr_db closed = None \<longrightarrow>
        applyChanges exec changes closed = (closed, Some (Error ''Database not opened'')))"
proof -
  have all: "applyChanges exec changes d =
        (d\<lparr>cr_db := Some db_all, cr_dbVersion := db_version db_all\<rparr>, None)"
    if a: "cr_db d = Some db \<and> those (map from_wire changes) = Some all_rows
             \<and> exec_all exec all_rows db = Inr db_all"
  proof -
    from a have t: "those (map from_wire changes) = Some all_rows"
      and x: "exec_all exec all_rows db = Inr db_all" by simp_all
    have "applyChanges_loop exec (changes @ []) db = applyChanges_loop exec [] db_all"
      by (rule applyChanges_loop_prefix [OF t x])
    then have "applyChanges_loop exec changes db = (db_all, None)" by simp
    with a show ?thesis by (simp add: applyChanges_def)
  qed
  have decode: "applyChanges exec (good @ bad # rest) d =
          (d\<lparr>cr_db := Some db'\<rparr>, Some InvalidCharacterError)"
    if a: "cr_db d = Some db \<and> those (map from_wire good) = Some rows
             \<and> exec_all exec rows db = Inr db' \<and> from_wire bad = None"
  proof -
    from a have t: "those (map from_wire good) = Some rows"
      and x: "exec_all exec rows db = Inr db'" by simp_all
    have "applyChanges_loop exec (good @ bad # rest) db
            = applyChanges_loop exec (bad # rest) db'"
      by (rule applyChanges_loop_prefix [OF t x])
    with a show ?thesis by (simp add: applyChanges_def)
  qed
  have refuse: "applyChanges exec (good @ refused # rest) d = (d\<lparr>cr_db := Some db'\<rparr>, Some e)"
    if a: "cr_db d = Some db \<and> those (map from_wire good) = Some rows
             \<and> exec_all exec rows db = Inr db' \<and> from_wire refused = Some row
             \<and> exec row db' = Inl e"
  proof -
    from a have t: "those (map from_wire good) = Some rows"
      and x: "exec_all exec rows db = Inr db'" by simp_all
    have "applyChanges_loop exec (good @ refused # rest) db
            = applyChanges_loop exec (refused # rest) db'"
      by (rule applyChanges_loop_prefix [OF t x])
    with a show ?thesis by (simp add: applyChanges_def)
  qed
  have unopened:
    "applyChanges exec changes closed = (closed, Some (Error ''Database not opened''))"
    if "cr_db closed = None"
    using that by (simp add: applyChanges_def)
  show ?thesis
    by (rule conjI [OF impI [OF all] conjI [OF impI [OF decode]
          conjI [OF impI [OF refuse] impI [OF unopened]]]])
qed

lemma from_wire_examples:
  "from_wire name_change = Some name_row"
  "from_wire broken_change = None"
  "from_wire unpacked_change = Some unpacked_row"
  by (simp_all add: from_wire_def name_change_def broken_change_def unpacked_change_def
      name_row_def unpacked_row_def
      base64ToUint8_def atob_def strip_padding_def is_ascii_whitespace_def b64_index_def
      b64_alphabet_def)

lemma packed_examples:
  "packed_ok (c_pk name_row)" "\<not> packed_ok (c_pk unpacked_row)"
  by (simp_all add: packed_ok_def name_row_def unpacked_row_def be_nat_def Let_def)

lemma local_replica_db:
  "cr_db local_replica = Some (open_crsqlite [1, 1, 1, 1, 1, 1, 1, 1, 1, 1, 1, 1, 1, 1, 1, 1])"
  by (simp add: local_replica_def opened_def)

lemma closed_replica_db: "cr_db closed_replica = None"
  by (simp add: closed_replica_def)

lemma insert_name_row:
  "crsql_insert_change name_row (open_crsqlite [1, 1, 1, 1, 1, 1, 1, 1, 1, 1, 1, 1, 1, 1, 1, 1])
     = Inr after_name_change"
  by (simp add: crsql_insert_change_def packed_examples crsql_merge_def open_crsqlite_def
      lookup_cell_def store_change_def after_name_change_def)
     (simp add: name_row_def)

lemma insert_unpacked_row: "crsql_insert_change unpacked_row db = Inl SqliteError"
  by (simp add: crsql_insert_change_def packed_examples)

theorem C1_apply_changes_stops_at_failure_witness:
  "cr_db local_replica = Some (open_crsqlite [1, 1, 1, 1, 1, 1, 1, 1, 1, 1, 1, 1, 1, 1, 1, 1])
   \<and> those (map from_wire [name_change]) = Some [name_row]
   \<and> exec_all crsql_insert_change [name_row]
         (open_crsqlite [1, 1, 1, 1, 1, 1, 1, 1, 1, 1, 1, 1, 1, 1, 1, 1]) = Inr after_name_change
   \<and> from_wire broken_change = None
   \<and> from_wire unpacked_change = Some unpacked_row
   \<and> crsql_insert_change unpacked_row after_name_change = Inl SqliteError
   \<and> cr_db closed_replica = None
   \<and> applyChanges crsql_insert_change [name_change] local_replica =
       (local_replica\<lparr>cr_db := Some after_name_change, cr_dbVersion := 1\<rparr>, None)
   \<and> applyChanges crsql_insert_change ([name_change] @ broken_change # [name_change])
         local_replica =
       (local_replica\<lparr>cr_db := Some after_name_change\<rparr>, Some InvalidCharacterError)
   \<and> applyChanges crsql_insert_change ([name_change] @ unpacked_change # [name_change])
         local_replica =
       (local_replica\<lparr>cr_db := Some after_name_change\<rparr>, Some SqliteError)
   \<and> applyChanges crsql_insert_change [name_change] closed_replica =
       (closed_replica, Some (Error ''Database not opened''))"
  using C1_apply_changes_stops_at_failure
          [where d = local_replica
             and db = "open_crsqlite [1, 1, 1, 1, 1, 1, 1, 1, 1, 1, 1, 1, 1, 1, 1, 1]"
             and exec = crsql_insert_change
             and changes = "[name_change]" and all_rows = "[name_row]"
             and db_all = after_name_change
             and good = "[name_change]" and rows = "[name_row]" and db' = after_name_change
             and bad = broken_change and rest = "[name_change]"
             and refused = unpacked_change and row = unpacked_row and e = SqliteError
             and closed = closed_replica]
  by (simp add: from_wire_examples insert_name_row insert_unpacked_row local_replica_db
      closed_replica_db)
     (simp add: after_name_change_def)

text \<open>
  The claim as the specification states it fails. The second record of the batch does not
  decode, or the database rejects its statement; \<^verbatim>\<open>applyChanges\<close> throws, and the first
  record stays applied: the store is not the store before the call.
\<close>

theorem C1_partial_commit_counterexample:
  "snd (applyChanges crsql_insert_change [name_change, broken_change] local_replica)
     = Some InvalidCharacterError
   \<and> cr_db (fst (applyChanges crsql_insert_change [name_change, broken_change] local_replica))
       = Some after_name_change
   \<and> snd (applyChanges crsql_insert_change [name_change, unpacked_change] local_replica)
       = Some SqliteError
   \<and> cr_db (fst (applyChanges crsql_insert_change [name_change, unpacked_change] local_replica))
       = Some after_name_change
   \<and> db_changes after_name_change = [name_row]
   \<and> cr_db local_replica =
       Some \<lparr>db_site_id = [1, 1, 1, 1, 1, 1, 1, 1, 1, 1, 1, 1, 1, 1, 1, 1], db_version = 0,
             db_changes = []\<rparr>
   \<and> Some after_name_change \<noteq> cr_db local_replica"
  by (simp add: applyChanges_def local_replica_db from_wire_examples insert_name_row
      insert_unpacked_row)
     (simp add: open_crsqlite_def after_name_change_def)

subsection \<open>Convergence\<close>

lemma max_join_absorb:
  fixes x y :: "'a :: linorder"
  shows "max y (max x y) = max x y" "max (max x y) x = max x y" "max y x = max x y"
    "max (max x y) (max x y) = max x y" "max x (max x y) = max x y" "max (max x y) y = max x y"
  by (simp_all add: max.assoc max.commute max.left_commute)

lemma exchange_joins:
  assumes "cr_db a = Some sa" and "well_formed sa" and "cr_db b = Some sb" and "well_formed sb"
    and "registers sa = ca \<or> registers sa = (\<lambda>k. max (ca k) (cb k))"
    and "registers sb = cb \<or> registers sb = (\<lambda>k. max (ca k) (cb k))"
    and "BtoA \<in> set ds \<or> registers sa = (\<lambda>k. max (ca k) (cb k))"
    and "AtoB \<in> set ds \<or> registers sb = (\<lambda>k. max (ca k) (cb k))"
  shows "\<exists>a' b' sa' sb'. exchange ds (a, b) = Some (a', b')
           \<and> cr_db a' = Some sa' \<and> cr_db b' = Some sb'
           \<and> registers sa' = (\<lambda>k. max (ca k) (cb k))
           \<and> registers sb' = (\<lambda>k. max (ca k) (cb k))"
  using assms
proof (induction ds arbitrary: a b sa sb)
  case Nil
  then show ?case by simp
next
  case (Cons dir ds)
  let ?J = "\<lambda>k. max (ca k) (cb k)"
  show ?case
  proof (cases dir)
    case AtoB
    define sb2 where "sb2 = fold crsql_merge (db_changes sa) sb"
    define a2 where "a2 = a\<lparr>cr_dbVersion := db_version sa\<rparr>"
    define b2 where "b2 = b\<lparr>cr_db := Some sb2, cr_dbVersion := db_version sb2\<rparr>"
    have send: "send_all a b = Some (a2, b2)"
      unfolding a2_def b2_def sb2_def
      by (rule send_all_opened [OF Cons.prems(1) Cons.prems(2) Cons.prems(3)])
    have "registers sb2 = (\<lambda>k. max (registers sb k) (registers sa k))"
      unfolding sb2_def by (rule ext) (rule registers_merge_all [OF Cons.prems(2)])
    with Cons.prems(5) Cons.prems(6) have j: "registers sb2 = ?J"
      by (auto simp: max_join_absorb)
    from Cons.prems(2) have pa: "list_all (\<lambda>e. packed_ok (c_pk e)) (db_changes sa)"
      by (simp add: well_formed_def)
    have wf2: "well_formed sb2"
      unfolding sb2_def by (rule well_formed_fold_merge [OF Cons.prems(4) pa])
    have fa: "BtoA \<in> set ds \<or> registers sa = ?J"
      using Cons.prems(7) AtoB by simp
    have "\<exists>a' b' sa' sb'. exchange ds (a2, b2) = Some (a', b')
           \<and> cr_db a' = Some sa' \<and> cr_db b' = Some sb'
           \<and> registers sa' = ?J \<and> registers sb' = ?J"
      by (rule Cons.IH [of a2 sa b2 sb2])
         (simp_all add: a2_def b2_def Cons.prems(1) Cons.prems(2) Cons.prems(5) wf2 j fa)
    with send AtoB show ?thesis by simp
  next
    case BtoA
    define sa2 where "sa2 = fold crsql_merge (db_changes sb) sa"
    define b2 where "b2 = b\<lparr>cr_dbVersion := db_version sb\<rparr>"
    define a2 where "a2 = a\<lparr>cr_db := Some sa2, cr_dbVersion := db_version sa2\<rparr>"
    have send: "send_all b a = Some (b2, a2)"
      unfolding a2_def b2_def sa2_def
      by (rule send_all_opened [OF Cons.prems(3) Cons.prems(4) Cons.prems(1)])
    have "registers sa2 = (\<lambda>k. max (registers sa k) (registers sb k))"
      unfolding sa2_def by (rule ext) (rule registers_merge_all [OF Cons.prems(4)])
    with Cons.prems(5) Cons.prems(6) have j: "registers sa2 = ?J"
      by (auto simp: max_join_absorb)
    from Cons.prems(4) have pb: "list_all (\<lambda>e. packed_ok (c_pk e)) (db_changes sb)"
      by (simp add: well_formed_def)
    have wf2: "well_formed sa2"
      unfolding sa2_def by (rule well_formed_fold_merge [OF Cons.prems(2) pb])
    have fb: "AtoB \<in> set ds \<or> registers sb = ?J"
      using Cons.prems(8) BtoA by simp
    have "\<exists>a' b' sa' sb'. exchange ds (a2, b2) = Some (a', b')
           \<and> cr_db a' = Some sa' \<and> cr_db b' = Some sb'
           \<and> registers sa' = ?J \<and> registers sb' = ?J"
      by (rule Cons.IH [of a2 sa2 b2 sb])
         (simp_all add: a2_def b2_def Cons.prems(3) Cons.prems(4) Cons.prems(6) wf2 j fb)
    with send BtoA show ?thesis by simp
  qed
qed

lemma local_writes_opened:
  "cr_db (local_writes ws (opened site)) = Some (fold apply_local_write ws (open_crsqlite site))"
  by (simp add: local_writes_def opened_def)

text \<open>
  Claim C2. Two replicas make any local writes from empty databases and then exchange
  all their changes by \<^verbatim>\<open>getChanges(0)\<close> and \<^verbatim>\<open>applyChanges\<close>, in any sequence of
  steps in which each direction occurs at least once. Then no step fails, and both end
  with the same register in every cell, the greater of the two registers they had before
  the exchange; so every row of \<^verbatim>\<open>sites\<close> has the same column values on both.
\<close>

theorem C2_catalog_convergence:
  assumes "AtoB \<in> set ds" and "BtoA \<in> set ds"
  shows "case exchange ds (local_writes wa (opened sitea), local_writes wb (opened siteb)) of
           None \<Rightarrow> False
         | Some (a', b') \<Rightarrow>
             replica_registers a' = replica_registers b'
             \<and> replica_registers a' =
                 (\<lambda>k. max (replica_registers (local_writes wa (opened sitea)) k)
                          (replica_registers (local_writes wb (opened siteb)) k))
             \<and> replica_sites_column a' = replica_sites_column b'"
proof -
  let ?a = "local_writes wa (opened sitea)" and ?b = "local_writes wb (opened siteb)"
  let ?sa = "fold apply_local_write wa (open_crsqlite sitea)"
  let ?sb = "fold apply_local_write wb (open_crsqlite siteb)"
  have wfa: "well_formed ?sa" and wfb: "well_formed ?sb"
    by (simp_all add: well_formed_fold_local well_formed_open)
  from exchange_joins [of ?a ?sa ?b ?sb "registers ?sa" "registers ?sb" ds,
      OF local_writes_opened wfa local_writes_opened wfb]
    assms
  obtain a' b' sa' sb' where ex: "exchange ds (?a, ?b) = Some (a', b')"
    and a': "cr_db a' = Some sa'" and b': "cr_db b' = Some sb'"
    and ra: "registers sa' = (\<lambda>k. max (registers ?sa k) (registers ?sb k))"
    and rb: "registers sb' = (\<lambda>k. max (registers ?sa k) (registers ?sb k))"
    by auto
  have regs: "replica_registers a' = replica_registers b'"
    by (rule ext) (simp add: replica_registers_def a' b' ra rb)
  have join: "replica_registers a' =
                 (\<lambda>k. max (replica_registers ?a k) (replica_registers ?b k))"
    by (rule ext) (simp add: replica_registers_def a' ra local_writes_opened)
  have same: "registers sa' = registers sb'"
    by (simp only: ra rb)
  have "sites_column sa' = sites_column sb'"
    by (intro ext) (simp only: sites_column_def same)
  then have cols: "replica_sites_column a' = replica_sites_column b'"
    by (intro ext) (simp add: replica_sites_column_def a' b')
  from ex regs join cols show ?thesis by simp
qed

lemma exchange_example:
  "map_option
     (\<lambda>(a', b'). (replica_sites_column a' [1, 11, 1, 49] ''name'',
                  replica_sites_column b' [1, 11, 1, 49] ''name'',
                  replica_sites_column a' [1, 11, 1, 50] ''name'',
                  replica_sites_column b' [1, 11, 1, 50] ''name''))
     (exchange [AtoB, BtoA] (replica_A, replica_B))
   = Some (Some (SqlText ''Gamma''), Some (SqlText ''Gamma''),
           Some (SqlText ''Delta''), Some (SqlText ''Delta''))"
  by code_simp

theorem C2_catalog_convergence_witness:
  "AtoB \<in> set [AtoB, BtoA] \<and> BtoA \<in> set [AtoB, BtoA]
   \<and> (case exchange [AtoB, BtoA] (replica_A, replica_B) of
         None \<Rightarrow> False
       | Some (a', b') \<Rightarrow>
           replica_registers a' = replica_registers b'
           \<and> replica_sites_column a' = replica_sites_column b'
           \<and> replica_sites_column a' [1, 11, 1, 49] ''name'' = Some (SqlText ''Gamma'')
           \<and> replica_sites_column a' [1, 11, 1, 50] ''name'' = Some (SqlText ''Delta''))"
  using C2_catalog_convergence
          [of "[AtoB, BtoA]"
              "[WriteColumn ''sites'' [SqlText ''1''] ''name'' (SqlText ''Alpha''),
                WriteColumn ''sites'' [SqlText ''1''] ''name'' (SqlText ''Gamma'')]"
              "[10, 10, 10, 10, 10, 10, 10, 10, 10, 10, 10, 10, 10, 10, 10, 10]"
              "[WriteColumn ''sites'' [SqlText ''1''] ''name'' (SqlText ''Beta''),
                WriteColumn ''sites'' [SqlText ''2''] ''name'' (SqlText ''Delta'')]"
              "[11, 11, 11, 11, 11, 11, 11, 11, 11, 11, 11, 11, 11, 11, 11, 11]"]
        exchange_example
  by (auto simp: replica_A_def replica_B_def split: option.splits)

section \<open>Properties of the file transfer\<close>

lemma outbox_send: "outbox (sendTransferMessage peerId m st) = outbox st @ [(peerId, m)]"
  by (simp add: sendTransferMessage_def)

lemma outbox_fold_send:
  "outbox (fold (\<lambda>d. sendTransferMessage peerId (mk d)) ds st) =
     outbox st @ map (\<lambda>d. (peerId, mk d)) ds"
  by (induction ds arbitrary: st) (simp_all add: sendTransferMessage_def)





text \<open>
  Claim C10. A \<^verbatim>\<open>file-chunk\<close> or \<^verbatim>\<open>file-end\<close> message for which
  \<^verbatim>\<open>incomingTransfers\<close> has no entry under the key of its peer, site and path is
  handled without an error and leaves the whole state as it was: the transfers, the pending
  requests and their promises, the content store and the progress calls.
\<close>

theorem C10_unmatched_chunk_and_end_ignored:
  assumes "incomingTransfers st (transfer_key fromPeerId siteId path) = None"
  shows "handleTransferMessage fromPeerId (FileChunk siteId path data) st = Inr st
       \<and> handleTransferMessage fromPeerId (FileEnd siteId path) st = Inr st"
  using assms by (simp add: handleFileChunk_def finalizeIncomingFile_def)


text \<open>
  The keys of \<^verbatim>\<open>incomingTransfers\<close> tell the triples of peer, site and path apart when
  the peer id and the site id contain no colon, as hex node ids and UUIDs do.
\<close>

lemma split_at_separator:
  assumes "c \<notin> set xs" and "c \<notin> set xs'" and "xs @ c # ys = xs' @ c # ys'"
  shows "xs = xs' \<and> ys = ys'"
  using assms
proof (induction xs arbitrary: xs')
  case Nil
  then show ?case by (cases xs') auto
next
  case (Cons x xs)
  then obtain z zs where xs': "xs' = z # zs" by (cases xs') auto
  with Cons.prems have "x = z" and "xs @ c # ys = zs @ c # ys'" and "c \<notin> set xs"
    and "c \<notin> set zs"
    by auto
  with Cons.IH [of zs] xs' show ?case by simp
qed

lemma transfer_key_inj:
  assumes "CHR '':'' \<notin> set p" and "CHR '':'' \<notin> set s"
    and "CHR '':'' \<notin> set p'" and "CHR '':'' \<notin> set s'"
  shows "transfer_key p s q = transfer_key p' s' q' \<longleftrightarrow> p = p' \<and> s = s' \<and> q = q'"
proof
  assume "transfer_key p s q = transfer_key p' s' q'"
  then have eq: "p @ CHR '':'' # (s @ CHR '':'' # q) = p' @ CHR '':'' # (s' @ CHR '':'' # q')"
    by (simp add: transfer_key_def)
  from split_at_separator [OF assms(1) assms(3) eq]
  have p: "p = p'" and rest: "s @ CHR '':'' # q = s' @ CHR '':'' # q'" by simp_all
  from split_at_separator [OF assms(2) assms(4) rest] p
  show "p = p' \<and> s = s' \<and> q = q'" by simp
next
  assume "p = p' \<and> s = s' \<and> q = q'"
  then show "transfer_key p s q = transfer_key p' s' q'" by simp
qed

lemmas transfer_eval =
  transfer_run_def init_transfer_state_def requestFile_def requestFileList_def
  sendTransferMessage_def handleFileChunk_def finalizeIncomingFile_def settle_def
  notifyProgress_def transfer_key_def file_key_def list_key_def advance_to_def
  timeout_callback_def storeFile_def Let_def

lemma atob_SGkh: "base64ToUint8 ''SGkh'' = Some [72, 105, 33]"
  by (simp add: base64ToUint8_def atob_def strip_padding_def is_ascii_whitespace_def
      b64_index_def b64_alphabet_def)

lemma btoa_Hi: "uint8ToBase64 [72, 105, 33] = ''SGkh''"
  by (simp add: uint8ToBase64_def btoa_def b64_char_def b64_alphabet_def)


lemma chunk_payloads_Hi: "chunk_payloads [72, 105, 33] 0 = [''SGkh'']"
  by (simp add: chunk_payloads.simps [of _ 0] chunk_payloads.simps [of _ CHUNK_SIZE]
      slice_def btoa_Hi) (simp add: CHUNK_SIZE_def)

lemma mid_transfer_incoming:
  "incomingTransfers mid_transfer k =
     (if k = ''A:S:index.html''
      then Some \<lparr>t_siteId = ''S'', t_path = ''index.html'', t_contentType = ''text/html'',
                 t_totalSize = 6, t_receivedSize = 3, t_chunks = [[72, 105, 33]]\<rparr>
      else None)"
  by (simp add: mid_transfer_def transfer_eval atob_SGkh)

lemma mid_transfer_pending:
  "pendingRequests mid_transfer k = (if k = ''file:S:index.html'' then Some 0 else None)"
  by (simp add: mid_transfer_def transfer_eval atob_SGkh)

lemma mid_transfer_promises: "promises mid_transfer p = None"
  by (simp add: mid_transfer_def transfer_eval atob_SGkh)

theorem C10_unmatched_chunk_and_end_ignored_witness:
  "incomingTransfers mid_transfer (transfer_key ''B'' ''S'' ''index.html'') = None
   \<and> handleTransferMessage ''B'' (FileChunk ''S'' ''index.html'' ''SGkh'') mid_transfer
       = Inr mid_transfer
   \<and> handleTransferMessage ''B'' (FileEnd ''S'' ''index.html'') mid_transfer
       = Inr mid_transfer"
  using C10_unmatched_chunk_and_end_ignored
          [of mid_transfer "''B''" "''S''" "''index.html''" "''SGkh''"]
  by (simp add: mid_transfer_incoming transfer_key_def)

text \<open>
  Claim C3, as the code has it. A peer leaving changes nothing in the file-transfer
  module: transfer.js listens to no \<^verbatim>\<open>peer-leave\<close> event, so every incoming transfer and
  every pending request stays, and no promise is rejected. The peer is removed from the
  peers of the node and the catalog's listeners are notified.
\<close>

theorem C3_peer_leave_keeps_transfer_state:
  "transfer (peer_leave peerId n) = transfer n
   \<and> peers (peer_leave peerId n) = removeAll peerId (peers n)"
  by (simp add: peer_leave_def notifyPeerChange_def notifyChange_def removePeer_def)

text \<open>
  The claim as the specification states it fails: after peer \<open>A\<close> has left in the middle
  of a transfer, the incoming transfer of \<open>A\<close> is still there, the request for the file is
  still pending and its promise is not rejected.
\<close>

theorem C3_peer_leave_counterexample:
  "incomingTransfers (transfer (peer_leave ''A'' mid_transfer_node)) ''A:S:index.html'' \<noteq> None
   \<and> pendingRequests (transfer (peer_leave ''A'' mid_transfer_node)) ''file:S:index.html''
       = Some 0
   \<and> promises (transfer (peer_leave ''A'' mid_transfer_node)) 0 = None"
  by (simp add: peer_leave_def notifyPeerChange_def notifyChange_def removePeer_def
      mid_transfer_node_def mid_transfer_incoming mid_transfer_pending mid_transfer_promises)




text \<open>
  Timeouts. A timer that fires while the handle of its own request is stored under its key
  rejects that request with the timeout error and removes the entry.
\<close>

lemma timeout_callback_rejects:
  assumes "pendingRequests st (tm_key tm) = Some (tm_promise tm)"
    and "promises st (tm_promise tm) = None"
  shows "promises (timeout_callback tm st) (tm_promise tm)
           = Some (Rejected (Error (tm_message tm)))
       \<and> pendingRequests (timeout_callback tm st) (tm_key tm) = None"
  using assms by (simp add: timeout_callback_def settle_def)

lemma lone_list_request_times_out:
  "promises (advance_to 29999 lone_list_request) 0 = None
   \<and> pendingRequests (advance_to 29999 lone_list_request) ''list:S'' = Some 0
   \<and> promises (advance_to 30000 lone_list_request) 0
       = Some (Rejected (Error ''Request timed out''))
   \<and> pendingRequests (advance_to 30000 lone_list_request) ''list:S'' = None"
  by (simp add: lone_list_request_def transfer_eval)

text \<open>
  Claim C6 at a concrete run. The timer of a request is not cancelled when the request is
  answered, and its callback only tests that some handle is stored under the key. So the
  timer of an answered request removes the handle of a later request for the same key and
  rejects nothing; the later request's own timer then finds no handle. The second request
  for the file list (promise 1, made at 2 s) is never settled, although no file list came
  within its 30 s; the same holds for the second request for the file and its 60 s.
\<close>

theorem C6_stale_timer_leaves_request_unsettled:
  "promises stale_list_timer_run 0 = Some (Resolved_files [])
   \<and> promises stale_list_timer_run 1 = None
   \<and> pendingRequests stale_list_timer_run ''list:S'' = None
   \<and> timers stale_list_timer_run = []
   \<and> promises stale_file_timer_run 0 = Some Resolved_true
   \<and> promises stale_file_timer_run 1 = None
   \<and> pendingRequests stale_file_timer_run ''file:S:index.html'' = None
   \<and> timers stale_file_timer_run = []"
  by (simp add: stale_list_timer_run_def stale_file_timer_run_def transfer_eval atob_SGkh)



subsection \<open>A call of \<^verbatim>\<open>sendFile\<close> among other events\<close>
























section \<open>Properties of the catalog\<close>

lemma or_string_empty: "or_string v [] = (case v of None \<Rightarrow> [] | Some s \<Rightarrow> s)"
  by (simp add: or_string_def split: option.splits)

lemma or_number_0:
  "or_number v 0 = (if v = SqlNull \<or> v = SqlText [] then SqlInt 0 else v)"
  by (simp add: or_number_def split: sql_value.splits)

lemma getSite_Some:
  assumes "getSite cat ident = Some r"
  shows "\<exists>l. cat = Some l \<and> r \<in> set (sites l) \<and> s_id r = ident"
proof -
  from assms obtain l where l: "cat = Some l"
    by (cases cat) (simp_all add: getSite_def)
  with assms obtain rs where "filter (\<lambda>r. s_id r = ident) (sites l) = r # rs"
    by (auto simp: getSite_def split: list.splits)
  then have "r \<in> set (filter (\<lambda>r. s_id r = ident) (sites l))" by simp
  with l show ?thesis by simp
qed

lemma adoptSite_row:
  assumes "getSite (Some l) originalId = Some original"
  shows "adoptSite originalId newId stamp (Some l) =
     (if newId \<in> s_id ` set (sites l) then Inl ConstraintError
      else Inr ((\<lparr>s_id = newId,
                  s_name = Some (case s_name original of None \<Rightarrow> [] | Some s \<Rightarrow> s),
                  s_url = Some (case s_url original of None \<Rightarrow> [] | Some s \<Rightarrow> s),
                  s_description =
                    Some (case s_description original of None \<Rightarrow> [] | Some s \<Rightarrow> s),
                  s_thumbnail =
                    Some (case s_thumbnail original of None \<Rightarrow> [] | Some s \<Rightarrow> s),
                  s_owner_id = Some (nodeId l),
                  s_content_hash =
                    Some (case s_content_hash original of None \<Rightarrow> [] | Some s \<Rightarrow> s),
                  s_file_count =
                    (if s_file_count original = SqlNull \<or> s_file_count original = SqlText []
                     then SqlInt 0 else s_file_count original),
                  s_file_size =
                    (if s_file_size original = SqlNull \<or> s_file_size original = SqlText []
                     then SqlInt 0 else s_file_size original),
                  s_added_at = Some stamp, s_updated_at = Some stamp\<rparr>, originalId),
                Some (l\<lparr>sites := sites l @
                  [\<lparr>s_id = newId,
                  s_name = Some (case s_name original of None \<Rightarrow> [] | Some s \<Rightarrow> s),
                  s_url = Some (case s_url original of None \<Rightarrow> [] | Some s \<Rightarrow> s),
                  s_description =
                    Some (case s_description original of None \<Rightarrow> [] | Some s \<Rightarrow> s),
                  s_thumbnail =
                    Some (case s_thumbnail original of None \<Rightarrow> [] | Some s \<Rightarrow> s),
                  s_owner_id = Some (nodeId l),
                  s_content_hash =
                    Some (case s_content_hash original of None \<Rightarrow> [] | Some s \<Rightarrow> s),
                  s_file_count =
                    (if s_file_count original = SqlNull \<or> s_file_count original = SqlText []
                     then SqlInt 0 else s_file_count original),
                  s_file_size =
                    (if s_file_size original = SqlNull \<or> s_file_size original = SqlText []
                     then SqlInt 0 else s_file_size original),
                  s_added_at = Some stamp, s_updated_at = Some stamp\<rparr>]\<rparr>)))"
  using assms
  by (simp add: adoptSite_def addSite_def insert_site_def or_string_empty or_number_0
      Let_def)

text \<open>
  Claim C7, as the code has it. In an initialised catalog, \<^verbatim>\<open>adoptSite\<close> of an id with
  no row fails with the error \<^verbatim>\<open>Site not found\<close>. For an id with a row: when the
  generated id is not the id of a row of the table, \<^verbatim>\<open>adoptSite\<close> returns; and whenever
  it returns, it returns the original id together with a new row whose id differs from the
  original id and whose owner is the local node. The name, url, description, thumbnail and
  content hash of the new row are those of the original row, with the empty text in place
  of \<^verbatim>\<open>NULL\<close>; its file count and file size are those of the original row, with 0 in
  place of \<^verbatim>\<open>NULL\<close> and of the empty text.
\<close>

theorem C7_adoption_identity:
  "(getSite (Some l) originalId = None \<longrightarrow>
      adoptSite originalId newId stamp (Some l) = Inl (Error ''Site not found''))
   \<and> (getSite (Some l) originalId = Some original \<and> newId \<notin> s_id ` set (sites l) \<longrightarrow>
        (\<exists>r. adoptSite originalId newId stamp (Some l) = Inr r))
   \<and> (getSite (Some l) originalId = Some original
        \<and> adoptSite originalId newId stamp (Some l) = Inr ((newSite, returnedId), cat') \<longrightarrow>
        returnedId = originalId
        \<and> s_id newSite \<noteq> originalId
        \<and> s_owner_id newSite = Some (nodeId l)
        \<and> s_name newSite = Some (case s_name original of None \<Rightarrow> [] | Some s \<Rightarrow> s)
        \<and> s_url newSite = Some (case s_url original of None \<Rightarrow> [] | Some s \<Rightarrow> s)
        \<and> s_description newSite
            = Some (case s_description original of None \<Rightarrow> [] | Some s \<Rightarrow> s)
        \<and> s_thumbnail newSite
            = Some (case s_thumbnail original of None \<Rightarrow> [] | Some s \<Rightarrow> s)
        \<and> s_content_hash newSite
            = Some (case s_content_hash original of None \<Rightarrow> [] | Some s \<Rightarrow> s)
        \<and> s_file_count newSite
            = (if s_file_count original = SqlNull \<or> s_file_count original = SqlText []
               then SqlInt 0 else s_file_count original)
        \<and> s_file_size newSite
            = (if s_file_size original = SqlNull \<or> s_file_size original = SqlText []
               then SqlInt 0 else s_file_size original))"
proof -
  have missing: "getSite (Some l) originalId = None \<longrightarrow>
      adoptSite originalId newId stamp (Some l) = Inl (Error ''Site not found'')"
    by (simp add: adoptSite_def)
  have returns: "getSite (Some l) originalId = Some original \<and> newId \<notin> s_id ` set (sites l) \<longrightarrow>
        (\<exists>r. adoptSite originalId newId stamp (Some l) = Inr r)"
    by (simp add: adoptSite_row)
  have result: "getSite (Some l) originalId = Some original
        \<and> adoptSite originalId newId stamp (Some l) = Inr ((newSite, returnedId), cat') \<longrightarrow>
        returnedId = originalId
        \<and> s_id newSite \<noteq> originalId
        \<and> s_owner_id newSite = Some (nodeId l)
        \<and> s_name newSite = Some (case s_name original of None \<Rightarrow> [] | Some s \<Rightarrow> s)
        \<and> s_url newSite = Some (case s_url original of None \<Rightarrow> [] | Some s \<Rightarrow> s)
        \<and> s_description newSite
            = Some (case s_description original of None \<Rightarrow> [] | Some s \<Rightarrow> s)
        \<and> s_thumbnail newSite
            = Some (case s_thumbnail original of None \<Rightarrow> [] | Some s \<Rightarrow> s)
        \<and> s_content_hash newSite
            = Some (case s_content_hash original of None \<Rightarrow> [] | Some s \<Rightarrow> s)
        \<and> s_file_count newSite
            = (if s_file_count original = SqlNull \<or> s_file_count original = SqlText []
               then SqlInt 0 else s_file_count original)
        \<and> s_file_size newSite
            = (if s_file_size original = SqlNull \<or> s_file_size original = SqlText []
               then SqlInt 0 else s_file_size original)"
  proof (rule impI)
    assume a: "getSite (Some l) originalId = Some original
       \<and> adoptSite originalId newId stamp (Some l) = Inr ((newSite, returnedId), cat')"
    then have g: "getSite (Some l) originalId = Some original" by simp
    from getSite_Some [OF g]
    have mem: "original \<in> set (sites l)" and oid: "s_id original = originalId"
      by auto
    from a have fresh: "newId \<notin> s_id ` set (sites l)"
      by (auto simp: adoptSite_row [OF g] split: if_splits)
    with mem oid have ne: "newId \<noteq> originalId" by auto
    from a have r: "adoptSite originalId newId stamp (Some l)
                      = Inr ((newSite, returnedId), cat')" by simp
    from r fresh
    have ns: "newSite =
        \<lparr>s_id = newId,
                  s_name = Some (case s_name original of None \<Rightarrow> [] | Some s \<Rightarrow> s),
                  s_url = Some (case s_url original of None \<Rightarrow> [] | Some s \<Rightarrow> s),
                  s_description =
                    Some (case s_description original of None \<Rightarrow> [] | Some s \<Rightarrow> s),
                  s_thumbnail =
                    Some (case s_thumbnail original of None \<Rightarrow> [] | Some s \<Rightarrow> s),
                  s_owner_id = Some (nodeId l),
                  s_content_hash =
                    Some (case s_content_hash original of None \<Rightarrow> [] | Some s \<Rightarrow> s),
                  s_file_count =
                    (if s_file_count original = SqlNull \<or> s_file_count original = SqlText []
                     then SqlInt 0 else s_file_count original),
                  s_file_size =
                    (if s_file_size original = SqlNull \<or> s_file_size original = SqlText []
                     then SqlInt 0 else s_file_size original),
                  s_added_at = Some stamp, s_updated_at = Some stamp\<rparr>"
      by (simp add: adoptSite_row [OF g])
    from r fresh have rid: "returnedId = originalId"
      by (simp add: adoptSite_row [OF g])
    from rid ne show "returnedId = originalId
        \<and> s_id newSite \<noteq> originalId
        \<and> s_owner_id newSite = Some (nodeId l)
        \<and> s_name newSite = Some (case s_name original of None \<Rightarrow> [] | Some s \<Rightarrow> s)
        \<and> s_url newSite = Some (case s_url original of None \<Rightarrow> [] | Some s \<Rightarrow> s)
        \<and> s_description newSite
            = Some (case s_description original of None \<Rightarrow> [] | Some s \<Rightarrow> s)
        \<and> s_thumbnail newSite
            = Some (case s_thumbnail original of None \<Rightarrow> [] | Some s \<Rightarrow> s)
        \<and> s_content_hash newSite
            = Some (case s_content_hash original of None \<Rightarrow> [] | Some s \<Rightarrow> s)
        \<and> s_file_count newSite
            = (if s_file_count original = SqlNull \<or> s_file_count original = SqlText []
               then SqlInt 0 else s_file_count original)
        \<and> s_file_size newSite
            = (if s_file_size original = SqlNull \<or> s_file_size original = SqlText []
               then SqlInt 0 else s_file_size original)"
      by (simp add: ns)
  qed
  show ?thesis by (rule conjI [OF missing conjI [OF returns result]])
qed

lemma two_row_lookup:
  "getSite (Some \<lparr>nodeId = ''n1'', sites = [foreign_row, null_row]\<rparr>) ''id-1'' = Some foreign_row"
  "getSite (Some \<lparr>nodeId = ''n1'', sites = [foreign_row, null_row]\<rparr>) ''id-3'' = Some null_row"
  "getSite (Some \<lparr>nodeId = ''n1'', sites = [foreign_row, null_row]\<rparr>) ''id-9'' = None"
  by (simp_all add: getSite_def foreign_row_def null_row_def)

lemma two_row_ids: "s_id foreign_row = ''id-1''" "s_id null_row = ''id-3''"
  by (simp_all add: foreign_row_def null_row_def)

lemma two_row_adopt:
  "adoptSite ''id-1'' ''id-2'' ''2024-02-02T00:00:00.000Z''
     (Some \<lparr>nodeId = ''n1'', sites = [foreign_row, null_row]\<rparr>)
   = Inr ((adopted_row, ''id-1''),
          Some \<lparr>nodeId = ''n1'', sites = [foreign_row, null_row, adopted_row]\<rparr>)"
  by (simp add: adoptSite_row [OF two_row_lookup(1)] two_row_ids)
     (simp add: foreign_row_def adopted_row_def)

lemma two_row_adopt_null:
  "adoptSite ''id-3'' ''id-4'' ''2024-02-02T00:00:00.000Z''
     (Some \<lparr>nodeId = ''n1'', sites = [foreign_row, null_row]\<rparr>)
   = Inr ((adopted_null_row, ''id-3''),
          Some \<lparr>nodeId = ''n1'', sites = [foreign_row, null_row, adopted_null_row]\<rparr>)"
  by (simp add: adoptSite_row [OF two_row_lookup(2)] two_row_ids)
     (simp add: null_row_def adopted_null_row_def)

lemma example_fields:
  "s_id adopted_row = ''id-2''" "s_owner_id adopted_row = Some ''n1''"
  "s_name adopted_row = Some ''Alpha''" "s_name foreign_row = Some ''Alpha''"
  "s_file_size adopted_row = SqlInt 130000" "s_file_size foreign_row = SqlInt 130000"
  by (simp_all add: adopted_row_def foreign_row_def)

theorem C7_adoption_identity_witness:
  "getSite two_row_catalog ''id-9'' = None
   \<and> adoptSite ''id-9'' ''id-2'' ''2024-02-02T00:00:00.000Z'' two_row_catalog
       = Inl (Error ''Site not found'')
   \<and> getSite two_row_catalog ''id-1'' = Some foreign_row
   \<and> ''id-2'' \<notin> s_id ` set [foreign_row, null_row]
   \<and> adoptSite ''id-1'' ''id-2'' ''2024-02-02T00:00:00.000Z'' two_row_catalog
       = Inr ((adopted_row, ''id-1''),
              Some \<lparr>nodeId = ''n1'', sites = [foreign_row, null_row, adopted_row]\<rparr>)
   \<and> s_id adopted_row \<noteq> ''id-1''
   \<and> s_owner_id adopted_row = Some ''n1''
   \<and> s_name adopted_row = Some ''Alpha''
   \<and> s_name foreign_row = Some ''Alpha''
   \<and> s_file_size adopted_row = SqlInt 130000
   \<and> s_file_size foreign_row = SqlInt 130000"
  using C7_adoption_identity
          [where l = "\<lparr>nodeId = ''n1'', sites = [foreign_row, null_row]\<rparr>"
             and originalId = "''id-9''"
             and newId = "''id-2''" and stamp = "''2024-02-02T00:00:00.000Z''"
             and original = foreign_row and newSite = adopted_row and returnedId = "''id-1''"
             and cat' = "Some \<lparr>nodeId = ''n1'', sites = [foreign_row, null_row, adopted_row]\<rparr>"]
        C7_adoption_identity
          [where l = "\<lparr>nodeId = ''n1'', sites = [foreign_row, null_row]\<rparr>"
             and originalId = "''id-1''"
             and newId = "''id-2''" and stamp = "''2024-02-02T00:00:00.000Z''"
             and original = foreign_row and newSite = adopted_row and returnedId = "''id-1''"
             and cat' = "Some \<lparr>nodeId = ''n1'', sites = [foreign_row, null_row, adopted_row]\<rparr>"]
        two_row_lookup two_row_adopt
  by (simp add: two_row_catalog_def two_row_ids example_fields)

text \<open>
  The claim as the specification states it fails: a row whose \<open>name\<close>, \<open>thumbnail\<close>
  and \<open>file_count\<close> are \<^verbatim>\<open>NULL\<close> is adopted with the empty text as name and thumbnail
  and with 0 as file count, not with the values of the original row.
\<close>

theorem C7_null_column_counterexample:
  "getSite two_row_catalog ''id-3'' = Some null_row
   \<and> adoptSite ''id-3'' ''id-4'' ''2024-02-02T00:00:00.000Z'' two_row_catalog
       = Inr ((adopted_null_row, ''id-3''),
              Some \<lparr>nodeId = ''n1'', sites = [foreign_row, null_row, adopted_null_row]\<rparr>)
   \<and> s_name null_row = None \<and> s_name adopted_null_row = Some ''''
   \<and> s_thumbnail null_row = None \<and> s_thumbnail adopted_null_row = Some ''''
   \<and> s_file_count null_row = SqlNull \<and> s_file_count adopted_null_row = SqlInt 0
   \<and> s_name adopted_null_row \<noteq> s_name null_row
   \<and> s_file_count adopted_null_row \<noteq> s_file_count null_row"
  by (simp add: two_row_catalog_def two_row_lookup two_row_adopt_null)
     (simp add: null_row_def adopted_null_row_def)

section \<open>Properties of the local HTTP interceptor\<close>

lemma idb_get_Some: "idb_get k db = Some f \<Longrightarrow> f \<in> set db \<and> f_key f = k"
  by (auto simp: idb_get_def find_Some_iff)

lemma getFile_Some:
  "getFile siteId path db = Some f \<Longrightarrow> f \<in> set db \<and> f_key f = siteId @ ''/'' @ path"
  by (simp add: getFile_def idb_get_Some)

lemma find_root_Some:
  "find P (getFilesForSite siteId db) = Some f \<Longrightarrow> f \<in> set db \<and> f_siteId f = siteId \<and> P f"
proof -
  assume a: "find P (getFilesForSite siteId db) = Some f"
  then have "f \<in> set (getFilesForSite siteId db)" and "P f"
    by (auto simp: find_Some_iff)
  then show ?thesis by (simp add: getFilesForSite_def)
qed

lemma local_file_path_nonempty: "local_file_path rest \<noteq> []"
  by (simp add: local_file_path_def Let_def)

lemma sublist_join_with:
  "x \<in> set xs \<Longrightarrow> sublist x (join_with sep xs)"
proof (induction sep xs rule: join_with.induct)
  case (1 sep)
  then show ?case by simp
next
  case (2 sep y)
  then show ?case by simp
next
  case (3 sep y z zs)
  show ?case
  proof (cases "x = y")
    case True
    then show ?thesis by simp
  next
    case False
    with 3 have "sublist x (join_with sep (z # zs))" by simp
    then obtain ps ss where "join_with sep (z # zs) = ps @ x @ ss"
      by (auto simp: sublist_def)
    then have "join_with sep (y # z # zs) = (y @ sep @ ps) @ x @ ss" by simp
    then show ?thesis unfolding sublist_def by blast
  qed
qed

lemma sublist_trans_app: "sublist x y \<Longrightarrow> sublist x (p @ y @ s)"
proof -
  assume "sublist x y"
  then obtain ps ss where "y = ps @ x @ ss" by (auto simp: sublist_def)
  then have "p @ y @ s = (p @ ps) @ x @ (ss @ s)" by simp
  then show ?thesis unfolding sublist_def by blast
qed

lemma debugHtml_lists_files:
  assumes "f \<in> set allFiles"
  shows "sublist (f_path f) (debugHtml filePath siteId allFiles)"
proof -
  let ?li = "\<lambda>f. ''<li>'' @ f_path f @ '' ('' @ show_nat (f_size f) @ '' bytes)</li>''"
  let ?fileList = "join_with nl (map ?li allFiles)"
  have "sublist (f_path f) (?li f)" by (rule sublist_appendI)
  moreover have li: "sublist (?li f) ?fileList"
    using assms by (intro sublist_join_with) simp
  ultimately have s: "sublist (f_path f) ?fileList" by (rule sublist_order.order_trans)
  have "?li f \<noteq> []" by simp
  with li have ne: "?fileList \<noteq> []" by auto
  have "debugHtml filePath siteId allFiles =
          (''<!DOCTYPE html>'' @ nl @ ''<html>'' @ nl
           @ ''<head><title>Debug - File Not Found</title></head>'' @ nl
           @ ''<body>'' @ nl
           @ ''<h1>File not found: '' @ filePath @ ''</h1>'' @ nl
           @ ''<h2>Site ID: '' @ siteId @ ''</h2>'' @ nl
           @ ''<h2>Available files ('' @ show_nat (length allFiles) @ ''):</h2>'' @ nl
           @ ''<ul>'')
          @ ?fileList @ (''</ul>'' @ nl @ ''</body>'' @ nl @ ''</html>'')"
    using ne by (simp add: debugHtml_def Let_def)
  with s show ?thesis by (simp only: sublist_trans_app)
qed

lemma handleLocalRequest_local:
  assumes "filter (\<lambda>p. p \<noteq> []) (split_on (CHR ''/'') pathname) = ''local'' # siteId # rest"
  shows "handleLocalRequest db pathname =
     (let filePath = local_file_path rest;
          found = getFile siteId filePath db;
          file = (if found = None \<and> (filePath = ''index.html'' \<or> filePath = [])
                  then find is_root_page (getFilesForSite siteId db)
                  else found)
      in case file of
           Some f \<Rightarrow>
             \<lparr>r_status = 200,
              r_headers =
                [(''Content-Type'',
                  if f_contentType f = [] then ''application/octet-stream''
                  else f_contentType f),
                 (''Content-Length'', show_nat (f_size f)),
                 (''X-Scrap-Yard'', ''cached'')],
              r_body = Blob (f_content f)\<rparr>
         | None \<Rightarrow>
             (case (if CHR ''.'' \<notin> set filePath
                    then getFile siteId (filePath @ ''.html'') db else None) of
                Some htmlFile \<Rightarrow>
                  \<lparr>r_status = 200,
                   r_headers = [(''Content-Type'', ''text/html''),
                                (''X-Scrap-Yard'', ''cached'')],
                   r_body = Blob (f_content htmlFile)\<rparr>
              | None \<Rightarrow>
                  (case getFile siteId (filePath @ ''/index.html'') db of
                     Some indexFile \<Rightarrow>
                       \<lparr>r_status = 200,
                        r_headers = [(''Content-Type'', ''text/html''),
                                     (''X-Scrap-Yard'', ''cached'')],
                        r_body = Blob (f_content indexFile)\<rparr>
                   | None \<Rightarrow>
                       \<lparr>r_status = 404,
                        r_headers = [(''Content-Type'', ''text/html'')],
                        r_body = Text (debugHtml filePath siteId
                                         (getFilesForSite siteId db))\<rparr>)))"
  using assms by (simp add: handleLocalRequest_def Let_def)

text \<open>
  Claim C9, as the code has it. For a request path \<^verbatim>\<open>/local/{siteId}/{path}\<close> the file
  path is the path, \<open>index.html\<close> when it is empty. The request resolves to a blob in
  four ways, tried in this order, and the response is determined by the first that
  succeeds. (1) The record stored under the key of the site and the file path: status
  200, the blob as body, the blob's content type (\<^verbatim>\<open>application/octet-stream\<close> when it is
  empty), its length, and \<^verbatim>\<open>X-Scrap-Yard: cached\<close>. (2) For the file path \<open>index.html\<close>,
  the first root page among the files of the site: the same response, with the content
  type of that blob. (3) For a file path without a dot, the record stored under the file
  path with \<^verbatim>\<open>.html\<close> appended: status 200, the blob as body, the fixed content type
  \<^verbatim>\<open>text/html\<close>, and \<^verbatim>\<open>X-Scrap-Yard: cached\<close>. (4) The record stored under the file path
  with \<^verbatim>\<open>/index.html\<close> appended: the same response as in (3). When none succeeds, the
  response has status 404, the content type \<^verbatim>\<open>text/html\<close>, and as body the page in which
  the path of every stored file of the site occurs; the status is 404 in this case only.
  No response has a header \<^verbatim>\<open>X-Origin\<close>. A record found by a key is a record of the store
  with this key; a root page found is a record of the store of the requested site.
\<close>

theorem C9_local_response:
  assumes "filter (\<lambda>p. p \<noteq> []) (split_on (CHR ''/'') pathname) = ''local'' # siteId # rest"
  shows "(getFile siteId (local_file_path rest) db = Some direct \<longrightarrow>
            handleLocalRequest db pathname = \<lparr>r_status = 200,
               r_headers =
                 [(''Content-Type'',
                   if f_contentType direct = [] then ''application/octet-stream''
                   else f_contentType direct),
                  (''Content-Length'', show_nat (f_size direct)),
                  (''X-Scrap-Yard'', ''cached'')],
               r_body = Blob (f_content direct)\<rparr>)
       \<and> (getFile siteId (local_file_path rest) db = None \<and> local_file_path rest = ''index.html''
            \<and> find is_root_page (getFilesForSite siteId db) = Some root \<longrightarrow>
            handleLocalRequest db pathname = \<lparr>r_status = 200,
               r_headers =
                 [(''Content-Type'',
                   if f_contentType root = [] then ''application/octet-stream''
                   else f_contentType root),
                  (''Content-Length'', show_nat (f_size root)),
                  (''X-Scrap-Yard'', ''cached'')],
               r_body = Blob (f_content root)\<rparr>)
       \<and> (getFile siteId (local_file_path rest) db = None
            \<and> (local_file_path rest \<noteq> ''index.html''
                \<or> find is_root_page (getFilesForSite siteId db) = None)
            \<and> CHR ''.'' \<notin> set (local_file_path rest)
            \<and> getFile siteId (local_file_path rest @ ''.html'') db = Some html \<longrightarrow>
            handleLocalRequest db pathname = \<lparr>r_status = 200,
               r_headers = [(''Content-Type'', ''text/html''), (''X-Scrap-Yard'', ''cached'')],
               r_body = Blob (f_content html)\<rparr>)
       \<and> (getFile siteId (local_file_path rest) db = None
            \<and> (local_file_path rest \<noteq> ''index.html''
                \<or> find is_root_page (getFilesForSite siteId db) = None)
            \<and> (CHR ''.'' \<in> set (local_file_path rest)
                \<or> getFile siteId (local_file_path rest @ ''.html'') db = None)
            \<and> getFile siteId (local_file_path rest @ ''/index.html'') db = Some idx \<longrightarrow>
            handleLocalRequest db pathname = \<lparr>r_status = 200,
               r_headers = [(''Content-Type'', ''text/html''), (''X-Scrap-Yard'', ''cached'')],
               r_body = Blob (f_content idx)\<rparr>)
       \<and> (getFile siteId (local_file_path rest) db = None
            \<and> (local_file_path rest \<noteq> ''index.html''
                \<or> find is_root_page (getFilesForSite siteId db) = None)
            \<and> (CHR ''.'' \<in> set (local_file_path rest)
                \<or> getFile siteId (local_file_path rest @ ''.html'') db = None)
            \<and> getFile siteId (local_file_path rest @ ''/index.html'') db = None \<longrightarrow>
            handleLocalRequest db pathname = \<lparr>r_status = 404, r_headers = [(''Content-Type'', ''text/html'')],
               r_body = Text (debugHtml (local_file_path rest) siteId
                                (getFilesForSite siteId db))\<rparr>
            \<and> (\<forall>f \<in> set (getFilesForSite siteId db).
                  sublist (f_path f)
                    (debugHtml (local_file_path rest) siteId (getFilesForSite siteId db))))
       \<and> (r_status (handleLocalRequest db pathname) = 404 \<longleftrightarrow>
            getFile siteId (local_file_path rest) db = None
            \<and> (local_file_path rest \<noteq> ''index.html''
                \<or> find is_root_page (getFilesForSite siteId db) = None)
            \<and> (CHR ''.'' \<in> set (local_file_path rest)
                \<or> getFile siteId (local_file_path rest @ ''.html'') db = None)
            \<and> getFile siteId (local_file_path rest @ ''/index.html'') db = None)
       \<and> (r_status (handleLocalRequest db pathname) = 200 \<or> r_status (handleLocalRequest db pathname) = 404)
       \<and> map_of (r_headers (handleLocalRequest db pathname)) ''X-Origin'' = None
       \<and> (getFile siteId path db = Some byKey \<longrightarrow>
            byKey \<in> set db \<and> f_key byKey = siteId @ ''/'' @ path)
       \<and> (find is_root_page (getFilesForSite siteId db) = Some root \<longrightarrow>
            root \<in> set db \<and> f_siteId root = siteId \<and> is_root_page root)"
proof -
  let ?fp = "local_file_path rest"
  let ?r = "handleLocalRequest db pathname"
  note unfold = handleLocalRequest_local [OF assms, of db] Let_def
  have hitA: "?r = \<lparr>r_status = 200,
               r_headers =
                 [(''Content-Type'',
                   if f_contentType f = [] then ''application/octet-stream''
                   else f_contentType f),
                  (''Content-Length'', show_nat (f_size f)),
                  (''X-Scrap-Yard'', ''cached'')],
               r_body = Blob (f_content f)\<rparr>"
    if a: "getFile siteId ?fp db = Some f" for f
  proof -
    have s: "(if getFile siteId ?fp db = None \<and> (?fp = ''index.html'' \<or> ?fp = [])
              then find is_root_page (getFilesForSite siteId db)
              else getFile siteId ?fp db) = Some f"
      using a by simp
    show ?thesis by (simp only: unfold s) simp
  qed
  have hitB: "?r = \<lparr>r_status = 200,
               r_headers =
                 [(''Content-Type'',
                   if f_contentType f = [] then ''application/octet-stream''
                   else f_contentType f),
                  (''Content-Length'', show_nat (f_size f)),
                  (''X-Scrap-Yard'', ''cached'')],
               r_body = Blob (f_content f)\<rparr>"
    if a: "getFile siteId ?fp db = None \<and> ?fp = ''index.html''
            \<and> find is_root_page (getFilesForSite siteId db) = Some f" for f
  proof -
    from a have c: "getFile siteId ?fp db = None \<and> (?fp = ''index.html'' \<or> ?fp = [])"
      by blast
    from a have a3: "find is_root_page (getFilesForSite siteId db) = Some f" by blast
    have s: "(if getFile siteId ?fp db = None \<and> (?fp = ''index.html'' \<or> ?fp = [])
              then find is_root_page (getFilesForSite siteId db)
              else getFile siteId ?fp db) = Some f"
      by (simp only: c if_True a3) simp
    show ?thesis by (simp only: unfold s) simp
  qed
  have A: "getFile siteId ?fp db = Some direct \<longrightarrow>
            ?r = \<lparr>r_status = 200,
               r_headers =
                 [(''Content-Type'',
                   if f_contentType direct = [] then ''application/octet-stream''
                   else f_contentType direct),
                  (''Content-Length'', show_nat (f_size direct)),
                  (''X-Scrap-Yard'', ''cached'')],
               r_body = Blob (f_content direct)\<rparr>"
    using hitA by blast
  have B: "getFile siteId ?fp db = None \<and> ?fp = ''index.html''
            \<and> find is_root_page (getFilesForSite siteId db) = Some root \<longrightarrow>
            ?r = \<lparr>r_status = 200,
               r_headers =
                 [(''Content-Type'',
                   if f_contentType root = [] then ''application/octet-stream''
                   else f_contentType root),
                  (''Content-Length'', show_nat (f_size root)),
                  (''X-Scrap-Yard'', ''cached'')],
               r_body = Blob (f_content root)\<rparr>"
    using hitB by blast
  have fnd: "(if getFile siteId ?fp db = None \<and> (?fp = ''index.html'' \<or> ?fp = [])
              then find is_root_page (getFilesForSite siteId db)
              else getFile siteId ?fp db) = None"
    if "getFile siteId (local_file_path rest) db = None
            \<and> (local_file_path rest \<noteq> ''index.html''
                \<or> find is_root_page (getFilesForSite siteId db) = None)"
    using that by (auto simp: local_file_path_nonempty)
  have C: "getFile siteId (local_file_path rest) db = None
            \<and> (local_file_path rest \<noteq> ''index.html''
                \<or> find is_root_page (getFilesForSite siteId db) = None)
            \<and> CHR ''.'' \<notin> set ?fp
            \<and> getFile siteId (?fp @ ''.html'') db = Some html \<longrightarrow>
            ?r = \<lparr>r_status = 200,
               r_headers = [(''Content-Type'', ''text/html''), (''X-Scrap-Yard'', ''cached'')],
               r_body = Blob (f_content html)\<rparr>"
  proof (rule impI)
    assume a: "getFile siteId (local_file_path rest) db = None
            \<and> (local_file_path rest \<noteq> ''index.html''
                \<or> find is_root_page (getFilesForSite siteId db) = None)
            \<and> CHR ''.'' \<notin> set ?fp
            \<and> getFile siteId (?fp @ ''.html'') db = Some html"
    then have u: "getFile siteId (local_file_path rest) db = None
            \<and> (local_file_path rest \<noteq> ''index.html''
                \<or> find is_root_page (getFilesForSite siteId db) = None)" by simp
    from a have h: "(if CHR ''.'' \<notin> set ?fp
                     then getFile siteId (?fp @ ''.html'') db else None) = Some html"
      by simp
    show "?r = \<lparr>r_status = 200,
               r_headers = [(''Content-Type'', ''text/html''), (''X-Scrap-Yard'', ''cached'')],
               r_body = Blob (f_content html)\<rparr>"
      by (simp only: unfold fnd [OF u] h) simp
  qed
  have D: "getFile siteId (local_file_path rest) db = None
            \<and> (local_file_path rest \<noteq> ''index.html''
                \<or> find is_root_page (getFilesForSite siteId db) = None)
            \<and> (CHR ''.'' \<in> set ?fp
                \<or> getFile siteId (?fp @ ''.html'') db = None)
            \<and> getFile siteId (?fp @ ''/index.html'') db = Some idx \<longrightarrow>
            ?r = \<lparr>r_status = 200,
               r_headers = [(''Content-Type'', ''text/html''), (''X-Scrap-Yard'', ''cached'')],
               r_body = Blob (f_content idx)\<rparr>"
  proof (rule impI)
    assume a: "getFile siteId (local_file_path rest) db = None
            \<and> (local_file_path rest \<noteq> ''index.html''
                \<or> find is_root_page (getFilesForSite siteId db) = None)
            \<and> (CHR ''.'' \<in> set ?fp
                \<or> getFile siteId (?fp @ ''.html'') db = None)
            \<and> getFile siteId (?fp @ ''/index.html'') db = Some idx"
    then have u: "getFile siteId (local_file_path rest) db = None
            \<and> (local_file_path rest \<noteq> ''index.html''
                \<or> find is_root_page (getFilesForSite siteId db) = None)" by simp
    from a have h: "(if CHR ''.'' \<notin> set ?fp
                     then getFile siteId (?fp @ ''.html'') db else None) = None"
      by auto
    from a have i: "getFile siteId (?fp @ ''/index.html'') db = Some idx" by simp
    show "?r = \<lparr>r_status = 200,
               r_headers = [(''Content-Type'', ''text/html''), (''X-Scrap-Yard'', ''cached'')],
               r_body = Blob (f_content idx)\<rparr>"
      by (simp only: unfold fnd [OF u] h i) simp
  qed
  have E1: "?r = \<lparr>r_status = 404, r_headers = [(''Content-Type'', ''text/html'')],
               r_body = Text (debugHtml (local_file_path rest) siteId
                                (getFilesForSite siteId db))\<rparr>"
    if a: "getFile siteId (local_file_path rest) db = None
            \<and> (local_file_path rest \<noteq> ''index.html''
                \<or> find is_root_page (getFilesForSite siteId db) = None)
            \<and> (CHR ''.'' \<in> set (local_file_path rest)
                \<or> getFile siteId (local_file_path rest @ ''.html'') db = None)
            \<and> getFile siteId (local_file_path rest @ ''/index.html'') db = None"
  proof -
    from a have u: "getFile siteId (local_file_path rest) db = None
            \<and> (local_file_path rest \<noteq> ''index.html''
                \<or> find is_root_page (getFilesForSite siteId db) = None)" by simp
    from a have h: "(if CHR ''.'' \<notin> set ?fp
                     then getFile siteId (?fp @ ''.html'') db else None) = None"
      by auto
    from a have i: "getFile siteId (?fp @ ''/index.html'') db = None" by simp
    show ?thesis
      by (simp only: unfold fnd [OF u] h i) simp
  qed
  have E: "getFile siteId (local_file_path rest) db = None
            \<and> (local_file_path rest \<noteq> ''index.html''
                \<or> find is_root_page (getFilesForSite siteId db) = None)
            \<and> (CHR ''.'' \<in> set (local_file_path rest)
                \<or> getFile siteId (local_file_path rest @ ''.html'') db = None)
            \<and> getFile siteId (local_file_path rest @ ''/index.html'') db = None \<longrightarrow>
            ?r = \<lparr>r_status = 404, r_headers = [(''Content-Type'', ''text/html'')],
               r_body = Text (debugHtml (local_file_path rest) siteId
                                (getFilesForSite siteId db))\<rparr>
            \<and> (\<forall>f \<in> set (getFilesForSite siteId db).
                  sublist (f_path f)
                    (debugHtml ?fp siteId (getFilesForSite siteId db)))"
    using E1 debugHtml_lists_files by blast
  consider (a) f where "getFile siteId ?fp db = Some f"
    | (b) f where "getFile siteId ?fp db = None" "?fp = ''index.html''"
        "find is_root_page (getFilesForSite siteId db) = Some f"
    | (c) f where "getFile siteId (local_file_path rest) db = None
            \<and> (local_file_path rest \<noteq> ''index.html''
                \<or> find is_root_page (getFilesForSite siteId db) = None)" "CHR ''.'' \<notin> set ?fp" "getFile siteId (?fp @ ''.html'') db = Some f"
    | (d) f where "getFile siteId (local_file_path rest) db = None
            \<and> (local_file_path rest \<noteq> ''index.html''
                \<or> find is_root_page (getFilesForSite siteId db) = None)"
        "CHR ''.'' \<in> set ?fp \<or> getFile siteId (?fp @ ''.html'') db = None"
        "getFile siteId (?fp @ ''/index.html'') db = Some f"
    | (e) "getFile siteId (local_file_path rest) db = None
            \<and> (local_file_path rest \<noteq> ''index.html''
                \<or> find is_root_page (getFilesForSite siteId db) = None)
            \<and> (CHR ''.'' \<in> set (local_file_path rest)
                \<or> getFile siteId (local_file_path rest @ ''.html'') db = None)
            \<and> getFile siteId (local_file_path rest @ ''/index.html'') db = None"
    by (cases "getFile siteId ?fp db"; cases "find is_root_page (getFilesForSite siteId db)";
        cases "getFile siteId (?fp @ ''.html'') db";
        cases "getFile siteId (?fp @ ''/index.html'') db") blast+
  then have F: "(r_status ?r = 404 \<longleftrightarrow>
            getFile siteId (local_file_path rest) db = None
            \<and> (local_file_path rest \<noteq> ''index.html''
                \<or> find is_root_page (getFilesForSite siteId db) = None)
            \<and> (CHR ''.'' \<in> set (local_file_path rest)
                \<or> getFile siteId (local_file_path rest @ ''.html'') db = None)
            \<and> getFile siteId (local_file_path rest @ ''/index.html'') db = None)
       \<and> (r_status ?r = 200 \<or> r_status ?r = 404)
       \<and> map_of (r_headers ?r) ''X-Origin'' = None"
  proof cases
    case (a f)
    have "?r = \<lparr>r_status = 200,
               r_headers =
                 [(''Content-Type'',
                   if f_contentType f = [] then ''application/octet-stream''
                   else f_contentType f),
                  (''Content-Length'', show_nat (f_size f)),
                  (''X-Scrap-Yard'', ''cached'')],
               r_body = Blob (f_content f)\<rparr>"
      using a by (rule hitA)
    with a show ?thesis by simp
  next
    case (b f)
    have "?r = \<lparr>r_status = 200,
               r_headers =
                 [(''Content-Type'',
                   if f_contentType f = [] then ''application/octet-stream''
                   else f_contentType f),
                  (''Content-Length'', show_nat (f_size f)),
                  (''X-Scrap-Yard'', ''cached'')],
               r_body = Blob (f_content f)\<rparr>"
      using b by (intro hitB) simp
    with b show ?thesis by simp
  next
    case (c f)
    have h: "(if CHR ''.'' \<notin> set ?fp
              then getFile siteId (?fp @ ''.html'') db else None) = Some f"
      using c by simp
    have "?r = \<lparr>r_status = 200,
               r_headers = [(''Content-Type'', ''text/html''), (''X-Scrap-Yard'', ''cached'')],
               r_body = Blob (f_content f)\<rparr>"
      by (simp only: unfold fnd [OF c(1)] h) simp
    with c show ?thesis by simp
  next
    case (d f)
    have h: "(if CHR ''.'' \<notin> set ?fp
              then getFile siteId (?fp @ ''.html'') db else None) = None"
      using d(2) by auto
    have "?r = \<lparr>r_status = 200,
               r_headers = [(''Content-Type'', ''text/html''), (''X-Scrap-Yard'', ''cached'')],
               r_body = Blob (f_content f)\<rparr>"
      by (simp only: unfold fnd [OF d(1)] h d(3)) simp
    with d show ?thesis by simp
  next
    case e
    from E1 [OF e] e show ?thesis by simp
  qed
  have G: "getFile siteId path db = Some byKey \<longrightarrow>
            byKey \<in> set db \<and> f_key byKey = siteId @ ''/'' @ path"
    by (simp add: getFile_Some)
  have H: "find is_root_page (getFilesForSite siteId db) = Some root \<longrightarrow>
            root \<in> set db \<and> f_siteId root = siteId \<and> is_root_page root"
    using find_root_Some [of is_root_page siteId db root] by simp
  show ?thesis
    by (rule conjI [OF A conjI [OF B conjI [OF C conjI [OF D conjI [OF E conjI [OF
          conjunct1 [OF F] conjI [OF conjunct1 [OF conjunct2 [OF F]] conjI [OF
          conjunct2 [OF conjunct2 [OF F]] conjI [OF G H]]]]]]]]])
qed

lemma split_index: "filter (\<lambda>p. p \<noteq> []) (split_on (CHR ''/'') ''/local/S/index.html'')
    = ''local'' # ''S'' # [''index.html'']"
  by simp

lemma split_root: "filter (\<lambda>p. p \<noteq> []) (split_on (CHR ''/'') ''/local/T/'')
    = ''local'' # ''T'' # []"
  by simp

lemma split_about: "filter (\<lambda>p. p \<noteq> []) (split_on (CHR ''/'') ''/local/S/about'')
    = ''local'' # ''S'' # [''about'']"
  by simp

lemma split_docs: "filter (\<lambda>p. p \<noteq> []) (split_on (CHR ''/'') ''/local/S/docs'')
    = ''local'' # ''S'' # [''docs'']"
  by simp

lemma split_missing: "filter (\<lambda>p. p \<noteq> []) (split_on (CHR ''/'') ''/local/S/missing.js'')
    = ''local'' # ''S'' # [''missing.js'']"
  by simp

lemma show_nat_digits: "show_nat 2 = ''2''" "show_nat 3 = ''3''"
  by (simp_all add: show_nat.simps [of 2] show_nat.simps [of 3] digit_char_def)

lemma example_paths:
  "local_file_path [''index.html''] = ''index.html''"
  "local_file_path [] = ''index.html''"
  "local_file_path [''about''] = ''about''"
  "local_file_path [''docs''] = ''docs''"
  "local_file_path [''missing.js''] = ''missing.js''"
  by (simp_all add: local_file_path_def ends_with_def)

lemma site_store_lookups:
  "getFile ''S'' ''index.html'' site_store = Some hi_file"
  "getFile ''T'' ''index.html'' site_store = None"
  "getFile ''S'' ''about'' site_store = None"
  "getFile ''S'' ''about.html'' site_store = Some about_file"
  "getFile ''S'' ''docs'' site_store = None"
  "getFile ''S'' ''docs.html'' site_store = None"
  "getFile ''S'' ''docs/index.html'' site_store = Some docs_file"
  "getFile ''S'' ''missing.js'' site_store = None"
  "getFile ''S'' ''missing.js/index.html'' site_store = None"
  "getFile ''T'' ''index.html/index.html'' site_store = None"
  by (simp_all add: getFile_def idb_get_def site_store_def about_file_def hi_file_def
      docs_file_def home_file_def)

lemma site_store_files:
  "getFilesForSite ''S'' site_store = [about_file, docs_file, hi_file]"
  "getFilesForSite ''T'' site_store = [home_file]"
  by (simp_all add: getFilesForSite_def site_store_def about_file_def hi_file_def
      docs_file_def home_file_def)

lemma home_is_root_page: "is_root_page home_file"
  by (simp add: is_root_page_def home_file_def ends_with_def to_lower_ascii_def)

lemma example_fields_http:
  "f_contentType hi_file = ''text/html''" "f_size hi_file = 3" "f_content hi_file = [72, 105, 33]"
  "f_contentType home_file = []" "f_size home_file = 2" "f_content home_file = [104, 105]"
  "f_content about_file = [60, 62]" "f_content docs_file = [100]"
  "f_path about_file = ''about.html''" "f_path docs_file = ''docs/index.html''"
  "f_path hi_file = ''index.html''" "f_contentType about_file = ''application/xhtml+xml''"
  "f_contentType docs_file = ''text/plain''"
  by (simp_all add: hi_file_def home_file_def about_file_def docs_file_def)

theorem C9_local_response_witness:
  "filter (\<lambda>p. p \<noteq> []) (split_on (CHR ''/'') ''/local/S/index.html'')
     = ''local'' # ''S'' # [''index.html'']
   \<and> getFile ''S'' (local_file_path [''index.html'']) site_store = Some hi_file
   \<and> handleLocalRequest site_store ''/local/S/index.html'' =
       \<lparr>r_status = 200,
        r_headers = [(''Content-Type'', ''text/html''), (''Content-Length'', ''3''),
                     (''X-Scrap-Yard'', ''cached'')],
        r_body = Blob [72, 105, 33]\<rparr>
   \<and> getFile ''T'' (local_file_path []) site_store = None
   \<and> local_file_path [] = ''index.html''
   \<and> find is_root_page (getFilesForSite ''T'' site_store) = Some home_file
   \<and> handleLocalRequest site_store ''/local/T/'' =
       \<lparr>r_status = 200,
        r_headers = [(''Content-Type'', ''application/octet-stream''),
                     (''Content-Length'', ''2''), (''X-Scrap-Yard'', ''cached'')],
        r_body = Blob [104, 105]\<rparr>
   \<and> getFile ''S'' (local_file_path [''about'']) site_store = None
   \<and> getFile ''S'' (local_file_path [''about''] @ ''.html'') site_store = Some about_file
   \<and> f_contentType about_file = ''application/xhtml+xml''
   \<and> handleLocalRequest site_store ''/local/S/about'' =
       \<lparr>r_status = 200,
        r_headers = [(''Content-Type'', ''text/html''), (''X-Scrap-Yard'', ''cached'')],
        r_body = Blob [60, 62]\<rparr>
   \<and> getFile ''S'' (local_file_path [''docs'']) site_store = None
   \<and> getFile ''S'' (local_file_path [''docs''] @ ''.html'') site_store = None
   \<and> getFile ''S'' (local_file_path [''docs''] @ ''/index.html'') site_store = Some docs_file
   \<and> handleLocalRequest site_store ''/local/S/docs'' =
       \<lparr>r_status = 200,
        r_headers = [(''Content-Type'', ''text/html''), (''X-Scrap-Yard'', ''cached'')],
        r_body = Blob [100]\<rparr>
   \<and> getFile ''S'' (local_file_path [''missing.js'']) site_store = None
   \<and> getFile ''S'' (local_file_path [''missing.js''] @ ''/index.html'') site_store = None
   \<and> handleLocalRequest site_store ''/local/S/missing.js'' =
       \<lparr>r_status = 404, r_headers = [(''Content-Type'', ''text/html'')],
        r_body = Text (debugHtml ''missing.js'' ''S'' [about_file, docs_file, hi_file])\<rparr>
   \<and> sublist ''about.html'' (debugHtml ''missing.js'' ''S'' [about_file, docs_file, hi_file])
   \<and> sublist ''docs/index.html'' (debugHtml ''missing.js'' ''S'' [about_file, docs_file, hi_file])
   \<and> sublist ''index.html'' (debugHtml ''missing.js'' ''S'' [about_file, docs_file, hi_file])
   \<and> hi_file \<in> set site_store \<and> f_key hi_file = ''S'' @ ''/'' @ ''index.html''
   \<and> home_file \<in> set site_store \<and> f_siteId home_file = ''T'' \<and> is_root_page home_file"
proof -
  note ex = example_paths site_store_lookups site_store_files home_is_root_page
    example_fields_http show_nat_digits
  have r1: "handleLocalRequest site_store ''/local/S/index.html'' =
       \<lparr>r_status = 200,
        r_headers = [(''Content-Type'', ''text/html''), (''Content-Length'', ''3''),
                     (''X-Scrap-Yard'', ''cached'')],
        r_body = Blob [72, 105, 33]\<rparr>"
    and k1: "hi_file \<in> set site_store \<and> f_key hi_file = ''S'' @ ''/'' @ ''index.html''"
    using C9_local_response [OF split_index, where db = site_store and direct = hi_file
        and root = home_file and html = about_file and idx = docs_file
        and path = "''index.html''" and byKey = hi_file]
    by (simp_all add: ex)
  have r2: "handleLocalRequest site_store ''/local/T/'' =
       \<lparr>r_status = 200,
        r_headers = [(''Content-Type'', ''application/octet-stream''),
                     (''Content-Length'', ''2''), (''X-Scrap-Yard'', ''cached'')],
        r_body = Blob [104, 105]\<rparr>"
    and k2: "home_file \<in> set site_store \<and> f_siteId home_file = ''T'' \<and> is_root_page home_file"
    using C9_local_response [OF split_root, where db = site_store and direct = hi_file
        and root = home_file and html = about_file and idx = docs_file
        and path = "''index.html''" and byKey = hi_file]
    by (simp_all add: ex)
  have r3: "handleLocalRequest site_store ''/local/S/about'' =
       \<lparr>r_status = 200,
        r_headers = [(''Content-Type'', ''text/html''), (''X-Scrap-Yard'', ''cached'')],
        r_body = Blob [60, 62]\<rparr>"
    using C9_local_response [OF split_about, where db = site_store and direct = hi_file
        and root = home_file and html = about_file and idx = docs_file
        and path = "''index.html''" and byKey = hi_file]
    by (simp add: ex)
  have r4: "handleLocalRequest site_store ''/local/S/docs'' =
       \<lparr>r_status = 200,
        r_headers = [(''Content-Type'', ''text/html''), (''X-Scrap-Yard'', ''cached'')],
        r_body = Blob [100]\<rparr>"
    using C9_local_response [OF split_docs, where db = site_store and direct = hi_file
        and root = home_file and html = about_file and idx = docs_file
        and path = "''index.html''" and byKey = hi_file]
    by (simp add: ex)
  have r5: "handleLocalRequest site_store ''/local/S/missing.js'' =
       \<lparr>r_status = 404, r_headers = [(''Content-Type'', ''text/html'')],
        r_body = Text (debugHtml ''missing.js'' ''S'' [about_file, docs_file, hi_file])\<rparr>"
    and l5: "sublist ''about.html'' (debugHtml ''missing.js'' ''S'' [about_file, docs_file, hi_file])
      \<and> sublist ''docs/index.html'' (debugHtml ''missing.js'' ''S'' [about_file, docs_file, hi_file])
      \<and> sublist ''index.html'' (debugHtml ''missing.js'' ''S'' [about_file, docs_file, hi_file])"
    using C9_local_response [OF split_missing, where db = site_store and direct = hi_file
        and root = home_file and html = about_file and idx = docs_file
        and path = "''index.html''" and byKey = hi_file]
    by (simp_all add: ex)
  from r1 k1 r2 k2 r3 r4 r5 l5 show ?thesis
    by (simp add: ex split_index)
qed

text \<open>
  The claim as the specification states it fails. The response for a stored blob has no
  header \<^verbatim>\<open>X-Origin\<close>; the diagnostic header is named \<^verbatim>\<open>X-Scrap-Yard\<close>. And the blob
  \<open>about.html\<close>, stored with the content type \<^verbatim>\<open>application/xhtml+xml\<close> and found for the
  path \<open>about\<close> by appending \<^verbatim>\<open>.html\<close>, is sent as \<^verbatim>\<open>text/html\<close>.
\<close>

theorem C9_header_counterexample:
  "r_status (handleLocalRequest two_page_store ''/local/S/index.html'') = 200
   \<and> r_body (handleLocalRequest two_page_store ''/local/S/index.html'') = Blob (f_content hi_file)
   \<and> map_of (r_headers (handleLocalRequest two_page_store ''/local/S/index.html'')) ''X-Origin''
       = None
   \<and> r_status (handleLocalRequest two_page_store ''/local/S/about'') = 200
   \<and> r_body (handleLocalRequest two_page_store ''/local/S/about'') = Blob (f_content about_file)
   \<and> f_contentType about_file = ''application/xhtml+xml''
   \<and> map_of (r_headers (handleLocalRequest two_page_store ''/local/S/about'')) ''Content-Type''
       = Some ''text/html''"
proof -
  have lookups:
    "getFile ''S'' ''index.html'' two_page_store = Some hi_file"
    "getFile ''S'' ''about'' two_page_store = None"
    "getFile ''S'' ''about.html'' two_page_store = Some about_file"
    by (simp_all add: getFile_def idb_get_def two_page_store_def about_file_def hi_file_def)
  have "handleLocalRequest two_page_store ''/local/S/index.html'' =
     \<lparr>r_status = 200,
      r_headers = [(''Content-Type'', ''text/html''), (''Content-Length'', ''3''),
                   (''X-Scrap-Yard'', ''cached'')],
      r_body = Blob (f_content hi_file)\<rparr>"
    by (simp add: handleLocalRequest_local [OF split_index] example_paths lookups Let_def
        example_fields_http show_nat_digits)
  moreover have "handleLocalRequest two_page_store ''/local/S/about'' =
     \<lparr>r_status = 200,
      r_headers = [(''Content-Type'', ''text/html''), (''X-Scrap-Yard'', ''cached'')],
      r_body = Blob (f_content about_file)\<rparr>"
    by (simp add: handleLocalRequest_local [OF split_about] example_paths lookups Let_def)
  ultimately show ?thesis by (simp add: example_fields_http)
qed

section \<open>Properties of the reconnect state machine\<close>

lemma handleDisconnect_attempt:
  assumes "shouldReconnect c" and "reconnectAttempts c < 10"
  shows "handleDisconnect c =
           (c\<lparr>reconnectAttempts := reconnectAttempts c + 1\<rparr>,
            [Reconnecting (reconnectAttempts c + 1)],
            Some (min (1000 * 2 ^ reconnectAttempts c) 30000))"
  using assms
  by (simp add: handleDisconnect_def maxReconnectAttempts_def baseDelay_def maxDelay_def Let_def)

lemma handleDisconnect_exhausted:
  assumes "shouldReconnect c" and "10 \<le> reconnectAttempts c"
  shows "handleDisconnect c = (c, [Disconnected], None)"
  using assms by (simp add: handleDisconnect_def maxReconnectAttempts_def)

text \<open>
  Claim C8. On a socket close while \<^verbatim>\<open>shouldReconnect\<close> is true, the \<open>n\<close>-th reconnect
  attempt (\<open>1 \<le> n \<le> 10\<close>, that is, \<open>n - 1\<close> attempts were made before) emits
  \<^verbatim>\<open>reconnecting\<close> with attempt number \<open>n\<close> and schedules the reconnect after
  \<open>min (1000 * 2 ^ (n - 1)) 30000\<close> milliseconds; once 10 attempts were made, the next
  close schedules nothing, leaves the client as it is and emits \<^verbatim>\<open>disconnected\<close>.
\<close>

theorem C8_reconnect_backoff:
  assumes "shouldReconnect c"
  shows "(1 \<le> n \<and> n \<le> 10 \<and> reconnectAttempts c = n - 1 \<longrightarrow>
            handleDisconnect c =
              (c\<lparr>reconnectAttempts := n\<rparr>, [Reconnecting n],
               Some (min (1000 * 2 ^ (n - 1)) 30000)))
       \<and> (10 \<le> reconnectAttempts c \<longrightarrow>
            handleDisconnect c = (c, [Disconnected], None))"
proof (intro conjI impI)
  assume n: "1 \<le> n \<and> n \<le> 10 \<and> reconnectAttempts c = n - 1"
  then have lt: "reconnectAttempts c < 10" and eq: "reconnectAttempts c + 1 = n"
    by arith+
  show "handleDisconnect c =
          (c\<lparr>reconnectAttempts := n\<rparr>, [Reconnecting n],
           Some (min (1000 * 2 ^ (n - 1)) 30000))"
    using handleDisconnect_attempt [OF assms lt] n eq by simp
next
  assume "10 \<le> reconnectAttempts c"
  then show "handleDisconnect c = (c, [Disconnected], None)"
    by (rule handleDisconnect_exhausted [OF assms])
qed

theorem C8_reconnect_backoff_witness:
  "shouldReconnect new_SignalingClient
   \<and> handleDisconnect new_SignalingClient =
       (new_SignalingClient\<lparr>reconnectAttempts := 1\<rparr>, [Reconnecting 1], Some 1000)
   \<and> handleDisconnect (new_SignalingClient\<lparr>reconnectAttempts := 5\<rparr>) =
       (new_SignalingClient\<lparr>reconnectAttempts := 6\<rparr>, [Reconnecting 6], Some 30000)
   \<and> handleDisconnect (new_SignalingClient\<lparr>reconnectAttempts := 10\<rparr>) =
       (new_SignalingClient\<lparr>reconnectAttempts := 10\<rparr>, [Disconnected], None)"
  using C8_reconnect_backoff [of new_SignalingClient 1]
        C8_reconnect_backoff [of "new_SignalingClient\<lparr>reconnectAttempts := 5\<rparr>" 6]
        C8_reconnect_backoff [of "new_SignalingClient\<lparr>reconnectAttempts := 10\<rparr>" 11]
  by (simp add: new_SignalingClient_def)

end
